theory Spec2Isabelle
  imports Main "HOL-Library.Word" "HOL-Library.List_Lexorder" "HOL-Library.Char_ord"
    "HOL-Library.Product_Lexorder" "HOL-Library.Sublist" "HOL-Library.Multiset"
begin

section \<open>Strings and bytes\<close>

text \<open>
  Go strings and byte slices are byte sequences; both are modelled as \<open>char list\<close>
  (an Isabelle \<open>char\<close> is one byte). The order on strings is the bytewise lexicographic
  order that Go's \<open><\<close> on strings uses.
\<close>

type_synonym bytes = string

subsection \<open>strings.TrimSpace\<close>

text \<open>
  \<open>strings.TrimSpace\<close> removes leading and trailing white space as defined by Unicode.
  On a byte string these are the six ASCII characters tab, line feed, vertical tab, form
  feed, carriage return and space, and the UTF-8 encodings of U+0085, U+00A0, U+1680,
  U+2000 to U+200A, U+2028, U+2029, U+202F, U+205F and U+3000.
\<close>

definition spaceRunes :: "string list" where
  "spaceRunes =
     [[CHR 0x09], [CHR 0x0A], [CHR 0x0B], [CHR 0x0C], [CHR 0x0D], [CHR 0x20],
      [CHR 0xC2, CHR 0x85], [CHR 0xC2, CHR 0xA0], [CHR 0xE1, CHR 0x9A, CHR 0x80],
      [CHR 0xE2, CHR 0x80, CHR 0x80], [CHR 0xE2, CHR 0x80, CHR 0x81],
      [CHR 0xE2, CHR 0x80, CHR 0x82], [CHR 0xE2, CHR 0x80, CHR 0x83],
      [CHR 0xE2, CHR 0x80, CHR 0x84], [CHR 0xE2, CHR 0x80, CHR 0x85],
      [CHR 0xE2, CHR 0x80, CHR 0x86], [CHR 0xE2, CHR 0x80, CHR 0x87],
      [CHR 0xE2, CHR 0x80, CHR 0x88], [CHR 0xE2, CHR 0x80, CHR 0x89],
      [CHR 0xE2, CHR 0x80, CHR 0x8A], [CHR 0xE2, CHR 0x80, CHR 0xA8],
      [CHR 0xE2, CHR 0x80, CHR 0xA9], [CHR 0xE2, CHR 0x80, CHR 0xAF],
      [CHR 0xE2, CHR 0x81, CHR 0x9F], [CHR 0xE3, CHR 0x80, CHR 0x80]]"

definition leadingSpace :: "string \<Rightarrow> nat" where
  "leadingSpace s = (case find (\<lambda>r. prefix r s) spaceRunes of None \<Rightarrow> 0 | Some r \<Rightarrow> length r)"

definition trailingSpace :: "string \<Rightarrow> nat" where
  "trailingSpace s = (case find (\<lambda>r. suffix r s) spaceRunes of None \<Rightarrow> 0 | Some r \<Rightarrow> length r)"

text \<open>The two trimming loops; \<open>n\<close> bounds the number of iterations by the length.\<close>

fun trimLeftN :: "nat \<Rightarrow> string \<Rightarrow> string" where
  "trimLeftN 0 s = s"
| "trimLeftN (Suc n) s =
     (if leadingSpace s = 0 then s else trimLeftN n (drop (leadingSpace s) s))"

fun trimRightN :: "nat \<Rightarrow> string \<Rightarrow> string" where
  "trimRightN 0 s = s"
| "trimRightN (Suc n) s =
     (if trailingSpace s = 0 then s
      else trimRightN n (take (length s - trailingSpace s) s))"

definition strings_TrimSpace :: "string \<Rightarrow> string" where
  "strings_TrimSpace s = (let t = trimLeftN (length s) s in trimRightN (length t) t)"

subsection \<open>encoding/hex and decimal formatting\<close>

definition hexDigit :: "nat \<Rightarrow> char" where
  "hexDigit n = ''0123456789abcdef'' ! (n mod 16)"

definition hex_EncodeToString :: "bytes \<Rightarrow> string" where
  "hex_EncodeToString bs =
     concat (map (\<lambda>c. [hexDigit (of_char c div 16), hexDigit (of_char c mod 16)]) bs)"

text \<open>\<open>fmt.Sprintf("%d", n)\<close> for a non-negative number.\<close>

fun decimal :: "nat \<Rightarrow> string" where
  "decimal n =
     (if n < 10 then [char_of (48 + n)]
      else decimal (n div 10) @ [char_of (48 + n mod 10)])"

declare decimal.simps [simp del]

section \<open>The operation log (gossip/store.go)\<close>

record Identity =
  NodeID :: string
  IdentityPublicKey :: string
  IdentityPrivateKey :: string

record Operation =
  ID :: string
  Type :: string
  Author :: string
  Seq :: "64 word"
  Timestamp :: string
  Payload :: bytes
  PublicKey :: string
  Signature :: string

text \<open>
  The functions of the Go standard library that store.go calls are parameters of the
  model: SHA-256, Ed25519 signing and verification, base64 (standard encoding), JSON
  validation, JSON encoding of the signable fields (type, author, seq, timestamp,
  payload, public_key, in that order) and parsing of an RFC 3339 timestamp (only whether
  it succeeds is used).
\<close>

record lib =
  sha256_Sum :: "bytes \<Rightarrow> bytes"
  ed25519_Sign :: "bytes \<Rightarrow> bytes \<Rightarrow> bytes"
  ed25519_Verify :: "bytes \<Rightarrow> bytes \<Rightarrow> bytes \<Rightarrow> bool"
  base64_Encode :: "bytes \<Rightarrow> string"
  base64_Decode :: "string \<Rightarrow> bytes option"
  json_Valid :: "bytes \<Rightarrow> bool"
  json_Marshal :: "string \<Rightarrow> string \<Rightarrow> 64 word \<Rightarrow> string \<Rightarrow> bytes \<Rightarrow> string \<Rightarrow> bytes"
  time_Parse :: "string \<Rightarrow> bool"

datatype error =
    ErrTypeRequired
  | ErrPayloadInvalid
  | ErrOperationPayloadInvalid
  | ErrIDRequired
  | ErrAuthorRequired
  | ErrSeqZero
  | ErrInvalidTimestamp
  | ErrPublicKeyEncoding
  | ErrPublicKeyLength
  | ErrAuthorMismatch
  | ErrSignatureEncoding
  | ErrSignatureLength
  | ErrInvalidSignature
  | ErrIDMismatch
  | ErrConflict string "64 word"
  | ErrAlreadyExists
  | ErrIO

record Store =
  identity :: Identity
  privateKey :: bytes
  ops :: "Operation list"
  opIDs :: "string set"
  seqByAuthor :: "string \<rightharpoonup> 64 word"
  authorSeqIndex :: "string \<rightharpoonup> string"
  peers :: "string list"

text \<open>Reading a Go map at a missing key gives the zero value.\<close>

definition seqOf :: "(string \<rightharpoonup> 64 word) \<Rightarrow> string \<Rightarrow> 64 word" where
  "seqOf m a = (case m a of None \<Rightarrow> 0 | Some v \<Rightarrow> v)"

definition ed25519_PublicKeySize :: nat where
  "ed25519_PublicKeySize = 32"

definition ed25519_SignatureSize :: nat where
  "ed25519_SignatureSize = 64"

definition nodeIDFromPublicKey :: "lib \<Rightarrow> bytes \<Rightarrow> string" where
  "nodeIDFromPublicKey L pub = hex_EncodeToString (take 16 (sha256_Sum L pub))"

definition cloneRawJSON :: "bytes \<Rightarrow> bytes" where
  "cloneRawJSON inp = (if length inp = 0 then [] else inp)"

definition canonicalOperationBytes :: "lib \<Rightarrow> Operation \<Rightarrow> error + bytes" where
  "canonicalOperationBytes L op =
     (let payload = cloneRawJSON (Payload op);
          payload = (if length payload = 0 then ''{}'' else payload)
      in if \<not> json_Valid L payload then Inl ErrOperationPayloadInvalid
         else Inr (json_Marshal L (Type op) (Author op) (Seq op) (Timestamp op) payload
                     (PublicKey op)))"

definition computeOperationID :: "lib \<Rightarrow> bytes \<Rightarrow> bytes \<Rightarrow> string" where
  "computeOperationID L signable signature =
     hex_EncodeToString (sha256_Sum L (signable @ signature))"

definition signOperation :: "lib \<Rightarrow> Operation \<Rightarrow> bytes \<Rightarrow> error + (string \<times> string)" where
  "signOperation L op priv =
     (case canonicalOperationBytes L op of
        Inl e \<Rightarrow> Inl e
      | Inr signable \<Rightarrow>
          let sig = ed25519_Sign L priv signable
          in Inr (base64_Encode L sig, computeOperationID L signable sig))"

definition verifyOperation :: "lib \<Rightarrow> Operation \<Rightarrow> error option" where
  "verifyOperation L op =
     (if strings_TrimSpace (ID op) = [] then Some ErrIDRequired
      else if strings_TrimSpace (Type op) = [] then Some ErrTypeRequired
      else if strings_TrimSpace (Author op) = [] then Some ErrAuthorRequired
      else if Seq op = 0 then Some ErrSeqZero
      else if \<not> time_Parse L (Timestamp op) then Some ErrInvalidTimestamp
      else (case base64_Decode L (PublicKey op) of
        None \<Rightarrow> Some ErrPublicKeyEncoding
      | Some pubBytes \<Rightarrow>
          if length pubBytes \<noteq> ed25519_PublicKeySize then Some ErrPublicKeyLength
          else if Author op \<noteq> nodeIDFromPublicKey L pubBytes then Some ErrAuthorMismatch
          else (case base64_Decode L (Signature op) of
            None \<Rightarrow> Some ErrSignatureEncoding
          | Some signature \<Rightarrow>
              if length signature \<noteq> ed25519_SignatureSize then Some ErrSignatureLength
              else (case canonicalOperationBytes L op of
                Inl e \<Rightarrow> Some e
              | Inr signable \<Rightarrow>
                  if \<not> ed25519_Verify L pubBytes signable signature
                  then Some ErrInvalidSignature
                  else if ID op \<noteq> computeOperationID L signable signature
                  then Some ErrIDMismatch
                  else None))))"

definition authorSeqKey :: "string \<Rightarrow> 64 word \<Rightarrow> string" where
  "authorSeqKey author seq = author @ '':'' @ decimal (unat seq)"

text \<open>
  \<open>appendOpLocked\<close> appends one line to the log file. Its only result is whether the
  file system reported an error; \<open>diskOK\<close> says that opening and writing the file
  succeeded.
\<close>

definition appendOpLocked :: "bool \<Rightarrow> Operation \<Rightarrow> error option" where
  "appendOpLocked diskOK op = (if diskOK then None else Some ErrIO)"

definition addOperationLocked ::
  "lib \<Rightarrow> bool \<Rightarrow> Store \<Rightarrow> Operation \<Rightarrow> bool \<Rightarrow> (bool \<times> error option) \<times> Store" where
  "addOperationLocked L diskOK s op persist =
     (case verifyOperation L op of
        Some e \<Rightarrow> ((False, Some e), s)
      | None \<Rightarrow>
          if ID op \<in> opIDs s then ((False, None), s)
          else
            let key = authorSeqKey (Author op) (Seq op) in
            if (case authorSeqIndex s key of
                  Some existingID \<Rightarrow> existingID \<noteq> ID op
                | None \<Rightarrow> False)
            then ((False, Some (ErrConflict (Author op) (Seq op))), s)
            else
              let op' = op\<lparr>Payload := cloneRawJSON (Payload op)\<rparr>;
                  s' = s\<lparr>ops := ops s @ [op'],
                         opIDs := insert (ID op') (opIDs s),
                         authorSeqIndex := (authorSeqIndex s)(key \<mapsto> ID op'),
                         seqByAuthor :=
                           (if seqOf (seqByAuthor s) (Author op') < Seq op'
                            then (seqByAuthor s)(Author op' \<mapsto> Seq op')
                            else seqByAuthor s)\<rparr>
              in if persist
                 then (case appendOpLocked diskOK op' of
                         Some e \<Rightarrow> ((False, Some e), s')
                       | None \<Rightarrow> ((True, None), s'))
                 else ((True, None), s'))"

text \<open>
  \<open>AppendLocalOp\<close>: \<open>now\<close> is the formatted reading of the clock,
  \<open>time.Now().UTC().Format(time.RFC3339Nano)\<close>.
\<close>

definition AppendLocalOp ::
  "lib \<Rightarrow> string \<Rightarrow> bool \<Rightarrow> Store \<Rightarrow> string \<Rightarrow> bytes \<Rightarrow> (error + Operation) \<times> Store" where
  "AppendLocalOp L now diskOK s opType payload =
     (let opType = strings_TrimSpace opType in
      if opType = [] then (Inl ErrTypeRequired, s)
      else
        let payload = (if length payload = 0 then ''{}'' else payload) in
        if \<not> json_Valid L payload then (Inl ErrPayloadInvalid, s)
        else
          let seq = seqOf (seqByAuthor s) (NodeID (identity s)) + 1;
              op = \<lparr>ID = [], Type = opType, Author = NodeID (identity s), Seq = seq,
                    Timestamp = now, Payload = cloneRawJSON payload,
                    PublicKey = IdentityPublicKey (identity s), Signature = []\<rparr>
          in (case signOperation L op (privateKey s) of
               Inl e \<Rightarrow> (Inl e, s)
             | Inr (signature, opID) \<Rightarrow>
                 let op = op\<lparr>Signature := signature, ID := opID\<rparr> in
                 (case addOperationLocked L diskOK s op True of
                    ((added, Some e), s') \<Rightarrow> (Inl e, s')
                  | ((added, None), s') \<Rightarrow>
                      if \<not> added then (Inl ErrAlreadyExists, s') else (Inr op, s'))))"

definition AddRemoteOp ::
  "lib \<Rightarrow> bool \<Rightarrow> Store \<Rightarrow> Operation \<Rightarrow> (bool \<times> error option) \<times> Store" where
  "AddRemoteOp L diskOK s op = addOperationLocked L diskOK s op True"

definition Summary :: "Store \<Rightarrow> (string \<rightharpoonup> 64 word)" where
  "Summary s = (\<lambda>author. seqByAuthor s author)"

subsection \<open>Reading the log\<close>

text \<open>
  \<open>sort.SliceStable\<close> sorts by the given comparison \<open>lt\<close> and keeps elements that are
  not ordered by it in their original order. It is modelled by a stable insertion sort.
\<close>

fun insertStable :: "('a \<Rightarrow> 'a \<Rightarrow> bool) \<Rightarrow> 'a \<Rightarrow> 'a list \<Rightarrow> 'a list" where
  "insertStable lt x [] = [x]"
| "insertStable lt x (y # ys) =
     (if lt y x then y # insertStable lt x ys else x # y # ys)"

definition sort_SliceStable :: "('a \<Rightarrow> 'a \<Rightarrow> bool) \<Rightarrow> 'a list \<Rightarrow> 'a list" where
  "sort_SliceStable lt xs = foldr (insertStable lt) xs []"

text \<open>The comparison that \<open>MissingFor\<close> and \<open>Ops\<close> pass to the sort.\<close>

definition opLess :: "Operation \<Rightarrow> Operation \<Rightarrow> bool" where
  "opLess a b = (if Author a \<noteq> Author b then Author a < Author b else Seq a < Seq b)"

text \<open>
  The loop of \<open>MissingFor\<close> over the sorted operations, with its \<open>break\<close>. The
  summary is a Go map, possibly \<open>nil\<close> (\<open>None\<close>); \<open>limit\<close> is a Go \<open>int\<close>, which
  is only compared.
\<close>

fun missingLoop ::
  "(string \<rightharpoonup> 64 word) \<Rightarrow> int \<Rightarrow> Operation list \<Rightarrow> Operation list \<Rightarrow> Operation list" where
  "missingLoop summary limit out [] = out"
| "missingLoop summary limit out (op # rest) =
     (if seqOf summary (Author op) < Seq op
      then (let out' = out @ [op]
            in if limit > 0 \<and> int (length out') \<ge> limit then out'
               else missingLoop summary limit out' rest)
      else missingLoop summary limit out rest)"

definition MissingFor :: "Store \<Rightarrow> (string \<rightharpoonup> 64 word) option \<Rightarrow> int \<Rightarrow> Operation list" where
  "MissingFor s summary limit =
     (let summary = (case summary of None \<Rightarrow> Map.empty | Some m \<Rightarrow> m);
          ordered = sort_SliceStable opLess (ops s)
      in missingLoop summary limit [] ordered)"

definition Ops :: "Store \<Rightarrow> int \<Rightarrow> Operation list" where
  "Ops s limit =
     (let ordered = sort_SliceStable opLess (ops s)
      in if limit > 0 \<and> int (length ordered) > limit
         then drop (length ordered - nat limit) ordered
         else ordered)"

subsection \<open>Histories of calls\<close>

text \<open>
  \<open>OpenStore\<close> creates the store with empty log and indices and then replays the log
  file through \<open>addOperationLocked\<close> without persisting. A history is a list of calls on
  the store; \<open>run\<close> gives the state after it, whatever each call returned.
\<close>

definition newStore :: "Identity \<Rightarrow> bytes \<Rightarrow> string list \<Rightarrow> Store" where
  "newStore idn priv ps =
     \<lparr>identity = idn, privateKey = priv, ops = [], opIDs = {}, seqByAuthor = Map.empty,
      authorSeqIndex = Map.empty, peers = ps\<rparr>"

datatype call =
    CallAppendLocalOp string bool string bytes
  | CallAddRemoteOp bool Operation
  | CallLoadOp Operation

fun step :: "lib \<Rightarrow> Store \<Rightarrow> call \<Rightarrow> Store" where
  "step L s (CallAppendLocalOp now diskOK opType payload) =
     snd (AppendLocalOp L now diskOK s opType payload)"
| "step L s (CallAddRemoteOp diskOK op) = snd (AddRemoteOp L diskOK s op)"
| "step L s (CallLoadOp op) = snd (addOperationLocked L True s op False)"

definition run :: "lib \<Rightarrow> Store \<Rightarrow> call list \<Rightarrow> Store" where
  "run L s cs = foldl (step L) s cs"



subsection \<open>A small instance of the library, for evaluation\<close>

text \<open>
  Concrete stand-ins for the library functions, used where a statement is evaluated on an
  example: the hash keeps the first eight bytes, a signature is the first 64 bytes of key
  and message padded with dots, and a key pair has equal halves. They have the shape the
  code relies on (key and signature sizes, decode after encode) and none of the
  cryptographic strength, which no statement evaluated with them needs.
\<close>

definition toySign :: "bytes \<Rightarrow> bytes \<Rightarrow> bytes" where
  "toySign key m = take 64 (take 4 key @ m @ replicate 64 (CHR ''.''))"

definition toyLib :: lib where
  "toyLib =
     \<lparr>sha256_Sum = (\<lambda>b. take 8 b),
      ed25519_Sign = toySign,
      ed25519_Verify = (\<lambda>pub m sig. sig = toySign pub m),
      base64_Encode = (\<lambda>b. b),
      base64_Decode = (\<lambda>s. Some s),
      json_Valid = (\<lambda>p. p \<noteq> [] \<and> (hd p = CHR ''{'' \<or> hd p = CHR ''['')),
      json_Marshal = (\<lambda>t a n ts p k. t @ '','' @ a @ '','' @ decimal (unat n) @ '','' @ ts @ '','' @ p @ '','' @ k),
      time_Parse = (\<lambda>t. t \<noteq> [])\<rparr>"

definition toyKey :: bytes where
  "toyKey = ''K1K1K1K1K1K1K1K1K1K1K1K1K1K1K1K1''"

definition toyIdentity :: Identity where
  "toyIdentity =
     \<lparr>NodeID = nodeIDFromPublicKey toyLib toyKey, IdentityPublicKey = toyKey,
      IdentityPrivateKey = toyKey\<rparr>"

definition toyStore :: Store where
  "toyStore = newStore toyIdentity toyKey []"

definition toyKey2 :: bytes where
  "toyKey2 = ''K2K2K2K2K2K2K2K2K2K2K2K2K2K2K2K2''"

text \<open>
  Operations signed with these keys: the first two appended by the local node, one that
  shares author and sequence number with the first, and the second operation of another
  node.
\<close>

definition toyOp1 :: Operation where
  "toyOp1 =
     \<lparr>ID = ''6769742e636f6d6d'', Type = ''git.commit'', Author = ''4b314b314b314b31'',
      Seq = 1, Timestamp = ''t1'', Payload = ''{}'', PublicKey = toyKey,
      Signature = ''K1K1git.commit,4b314b314b314b31,1,t1,{},K1K1K1K1K1K1K1K1K1K1K1K1''\<rparr>"

definition toyOp2 :: Operation where
  "toyOp2 =
     \<lparr>ID = ''6769742e70757368'', Type = ''git.push'', Author = ''4b314b314b314b31'',
      Seq = 2, Timestamp = ''t2'', Payload = ''{}'', PublicKey = toyKey,
      Signature = ''K1K1git.push,4b314b314b314b31,2,t2,{},K1K1K1K1K1K1K1K1K1K1K1K1K1''\<rparr>"

definition toyRival1 :: Operation where
  "toyRival1 =
     \<lparr>ID = ''6769742e70757368'', Type = ''git.push'', Author = ''4b314b314b314b31'',
      Seq = 1, Timestamp = ''t1'', Payload = ''{}'', PublicKey = toyKey,
      Signature = ''K1K1git.push,4b314b314b314b31,1,t1,{},K1K1K1K1K1K1K1K1K1K1K1K1K1''\<rparr>"

definition toyCert2 :: Operation where
  "toyCert2 =
     \<lparr>ID = ''636572742c346233'', Type = ''cert'', Author = ''4b324b324b324b32'',
      Seq = 2, Timestamp = ''t2'', Payload = ''{}'', PublicKey = toyKey2,
      Signature = ''K2K2cert,4b324b324b324b32,2,t2,{},K2K2K2K2K2K2K2K2K2K2K2K2K2K2K2''\<rparr>"

definition toyLog1 :: Store where
  "toyLog1 = run toyLib toyStore [CallAppendLocalOp ''t1'' True ''git.commit'' []]"

subsection \<open>Notions used to state the properties\<close>

text \<open>The state after \<open>addOperationLocked\<close> has accepted an operation.\<close>

definition accepted :: "Store \<Rightarrow> Operation \<Rightarrow> Store" where
  "accepted s op =
     s\<lparr>ops := ops s @ [op\<lparr>Payload := cloneRawJSON (Payload op)\<rparr>],
       opIDs := insert (ID op) (opIDs s),
       authorSeqIndex := (authorSeqIndex s)(authorSeqKey (Author op) (Seq op) \<mapsto> ID op),
       seqByAuthor :=
         (if seqOf (seqByAuthor s) (Author op) < Seq op
          then (seqByAuthor s)(Author op \<mapsto> Seq op)
          else seqByAuthor s)\<rparr>"

text \<open>The sequence numbers that an author has in a log.\<close>

definition seqsOf :: "Operation list \<Rightarrow> string \<Rightarrow> 64 word set" where
  "seqsOf log a = set (map Seq (filter (\<lambda>x. Author x = a) log))"

definition toyLog3 :: Store where
  "toyLog3 = run toyLib toyStore
     [CallAppendLocalOp ''t1'' True ''git.commit'' [],
      CallAppendLocalOp ''t2'' True ''git.push'' ''{}'',
      CallAddRemoteOp True toyCert2]"

text \<open>
  The order of \<open>MissingFor\<close> and \<open>Ops\<close>: by author, then by sequence number (the
  lexicographic order on pairs).
\<close>

definition opKey :: "Operation \<Rightarrow> string \<times> 64 word" where
  "opKey op = (Author op, Seq op)"

text \<open>An operation is newer than a summary (\<open>nil\<close> is the empty summary).\<close>

definition newerThan :: "(string \<rightharpoonup> 64 word) option \<Rightarrow> Operation \<Rightarrow> bool" where
  "newerThan summary op =
     (seqOf (case summary of None \<Rightarrow> Map.empty | Some m \<Rightarrow> m) (Author op) < Seq op)"


text \<open>
  A history without gaps: every remote or replayed operation either leaves the log as it is
  or carries the sequence number that follows the largest one of its author.
\<close>

fun nextInSequence :: "lib \<Rightarrow> Store \<Rightarrow> call \<Rightarrow> bool" where
  "nextInSequence L s (CallAppendLocalOp now diskOK opType payload) = True"
| "nextInSequence L s (CallAddRemoteOp diskOK op) =
     (ops (snd (AddRemoteOp L diskOK s op)) = ops s
      \<or> Seq op = seqOf (seqByAuthor s) (Author op) + 1)"
| "nextInSequence L s (CallLoadOp op) =
     (ops (snd (addOperationLocked L True s op False)) = ops s
      \<or> Seq op = seqOf (seqByAuthor s) (Author op) + 1)"

fun gapFree :: "lib \<Rightarrow> Store \<Rightarrow> call list \<Rightarrow> bool" where
  "gapFree L s [] = True"
| "gapFree L s (c # cs) = (nextInSequence L s c \<and> gapFree L (step L s c) cs)"

text \<open>The first operation of the other node, and a history in which it precedes the second.\<close>

definition toyVote1 :: Operation where
  "toyVote1 =
     \<lparr>ID = ''766f74652c346233'', Type = ''vote'', Author = ''4b324b324b324b32'',
      Seq = 1, Timestamp = ''t1'', Payload = ''{}'', PublicKey = toyKey2,
      Signature = ''K2K2vote,4b324b324b324b32,1,t1,{},K2K2K2K2K2K2K2K2K2K2K2K2K2K2K2''\<rparr>"

definition toyLog6 :: Store where
  "toyLog6 = run toyLib toyStore
     [CallAppendLocalOp ''t1'' True ''git.commit'' [],
      CallAddRemoteOp True toyVote1,
      CallAddRemoteOp True toyCert2,
      CallAddRemoteOp True toyCert2]"

definition toyLog4 :: Store where
  "toyLog4 = run toyLib toyStore
     [CallAddRemoteOp True toyCert2,
      CallAppendLocalOp ''t1'' True ''git.commit'' [],
      CallAppendLocalOp ''t2'' True ''git.push'' ''{}'']"





section \<open>The pending-push queue (gossip/pending.go)\<close>

definition PendingPushStatusPending :: string where
  "PendingPushStatusPending = ''pending''"

definition PendingPushStatusFailed :: string where
  "PendingPushStatusFailed = ''failed''"

definition PendingPushStatusCompleted :: string where
  "PendingPushStatusCompleted = ''completed''"

text \<open>
  \<open>GitArgs\<close> is a Go slice, \<open>None\<close> when it is \<open>nil\<close>. \<open>Attempts\<close> is a Go \<open>int\<close>, taken
  as 64 bits wide and read as signed.
\<close>

record PendingPush =
  ProposalID :: string
  Remote :: string
  SourceRef :: string
  TargetRef :: string
  NewOID :: string
  GitArgs :: "string list option"
  Status :: string
  Attempts :: "64 word"
  LastError :: string
  CreatedAt :: string
  UpdatedAt :: string
  LastTriedAt :: string
  CompletedAt :: string

datatype pendingError =
    ErrPendingProposalIDRequired
  | ErrPendingTargetRefRequired
  | ErrPendingInvalidStatus string
  | ErrProposalIDRequired
  | ErrPendingNotFound string
  | ErrPendingRead
  | ErrPendingDecode
  | ErrPendingWrite

text \<open>
  The file \<open>pending_pushes.json\<close>: missing, unreadable, not decodable, or holding the
  list of records that \<open>json.Unmarshal\<close> reads from it.
\<close>

datatype pendingFile =
    FileMissing
  | FileUnreadable
  | FileCorrupt
  | FileContent "PendingPush list"

text \<open>
  \<open>normalizePendingPush\<close> reads the clock twice when \<open>forWrite\<close> is set: \<open>nowC\<close> is the
  reading used for an empty \<open>CreatedAt\<close>, \<open>nowU\<close> the reading used for \<open>UpdatedAt\<close>.
\<close>

definition normalizePendingPush ::
  "string \<Rightarrow> string \<Rightarrow> PendingPush \<Rightarrow> bool \<Rightarrow> pendingError + PendingPush" where
  "normalizePendingPush nowC nowU push forWrite =
     (let push = push\<lparr>ProposalID := strings_TrimSpace (ProposalID push)\<rparr>;
          push = push\<lparr>Remote := strings_TrimSpace (Remote push)\<rparr>;
          push = push\<lparr>SourceRef := strings_TrimSpace (SourceRef push)\<rparr>;
          push = push\<lparr>TargetRef := strings_TrimSpace (TargetRef push)\<rparr>;
          push = push\<lparr>NewOID := strings_TrimSpace (NewOID push)\<rparr>;
          push = push\<lparr>LastError := strings_TrimSpace (LastError push)\<rparr>
      in if ProposalID push = [] then Inl ErrPendingProposalIDRequired
         else if TargetRef push = [] then Inl ErrPendingTargetRefRequired
         else
           let push = (if Status push = [] then push\<lparr>Status := PendingPushStatusPending\<rparr>
                       else push)
           in if Status push \<noteq> PendingPushStatusPending
                 \<and> Status push \<noteq> PendingPushStatusFailed
                 \<and> Status push \<noteq> PendingPushStatusCompleted
              then Inl (ErrPendingInvalidStatus (Status push))
              else
                let push = (if GitArgs push = None then push\<lparr>GitArgs := Some []\<rparr> else push)
                in if forWrite
                   then (let push = (if CreatedAt push = [] then push\<lparr>CreatedAt := nowC\<rparr>
                                     else push)
                         in Inr (push\<lparr>UpdatedAt := nowU\<rparr>))
                   else Inr push)"

text \<open>The loop of \<open>loadPendingPushesLocked\<close>: it stops at the first record that fails.\<close>

fun normalizeLoaded :: "PendingPush list \<Rightarrow> pendingError + PendingPush list" where
  "normalizeLoaded [] = Inr []"
| "normalizeLoaded (push # rest) =
     (case normalizePendingPush [] [] push False of
        Inl e \<Rightarrow> Inl e
      | Inr normalized \<Rightarrow>
          (case normalizeLoaded rest of
             Inl e \<Rightarrow> Inl e
           | Inr pushes \<Rightarrow> Inr (normalized # pushes)))"

definition pushLess :: "PendingPush \<Rightarrow> PendingPush \<Rightarrow> bool" where
  "pushLess a b =
     (if CreatedAt a \<noteq> CreatedAt b then CreatedAt a < CreatedAt b
      else ProposalID a < ProposalID b)"

definition loadPendingPushesLocked :: "pendingFile \<Rightarrow> pendingError + PendingPush list" where
  "loadPendingPushesLocked file =
     (case file of
        FileMissing \<Rightarrow> Inr []
      | FileUnreadable \<Rightarrow> Inl ErrPendingRead
      | FileCorrupt \<Rightarrow> Inl ErrPendingDecode
      | FileContent stored \<Rightarrow>
          (case normalizeLoaded stored of
             Inl e \<Rightarrow> Inl e
           | Inr pushes \<Rightarrow> Inr (sort_SliceStable pushLess pushes)))"

text \<open>
  The file is written by \<open>json.MarshalIndent\<close> and read by \<open>json.Unmarshal\<close>. A
  string comes back from this round trip with every byte that does not start a valid
  UTF-8 sequence replaced by U+FFFD (bytes EF BF BD); valid sequences, escaped or not in
  the file, come back as they were. \<open>runeWidth\<close> is the size that
  \<open>utf8.DecodeRuneInString\<close> reports for a valid sequence at the start of the string,
  and 0 where it reports an error.
\<close>

definition byteIn :: "char \<Rightarrow> int \<Rightarrow> int \<Rightarrow> bool" where
  "byteIn c lo hi = (let b = (of_char c :: int) in lo \<le> b \<and> b \<le> hi)"

definition secondByteOK :: "char \<Rightarrow> char \<Rightarrow> bool" where
  "secondByteOK b0 b1 =
     (if b0 = CHR 0xE0 then byteIn b1 0xA0 0xBF
      else if b0 = CHR 0xED then byteIn b1 0x80 0x9F
      else if b0 = CHR 0xF0 then byteIn b1 0x90 0xBF
      else if b0 = CHR 0xF4 then byteIn b1 0x80 0x8F
      else byteIn b1 0x80 0xBF)"

definition runeWidth :: "string \<Rightarrow> nat" where
  "runeWidth s =
     (case s of
        [] \<Rightarrow> 0
      | b0 # r \<Rightarrow>
          if byteIn b0 0x00 0x7F then 1
          else if byteIn b0 0xC2 0xDF
          then (case r of
                  b1 # r1 \<Rightarrow> if secondByteOK b0 b1 then 2 else 0
                | [] \<Rightarrow> 0)
          else if byteIn b0 0xE0 0xEF
          then (case r of
                  b1 # b2 # r2 \<Rightarrow>
                    if secondByteOK b0 b1 \<and> byteIn b2 0x80 0xBF then 3 else 0
                | _ \<Rightarrow> 0)
          else if byteIn b0 0xF0 0xF4
          then (case r of
                  b1 # b2 # b3 # r3 \<Rightarrow>
                    if secondByteOK b0 b1 \<and> byteIn b2 0x80 0xBF \<and> byteIn b3 0x80 0xBF
                    then 4 else 0
                | _ \<Rightarrow> 0)
          else 0)"

text \<open>The loop over the string; \<open>n\<close> bounds the number of steps by the length.\<close>

fun jsonStringN :: "nat \<Rightarrow> string \<Rightarrow> string" where
  "jsonStringN 0 s = []"
| "jsonStringN (Suc n) s =
     (if s = [] then []
      else
        let size = runeWidth s in
        if size = 0 then [CHR 0xEF, CHR 0xBF, CHR 0xBD] @ jsonStringN n (drop 1 s)
        else take size s @ jsonStringN n (drop size s))"

definition jsonString :: "string \<Rightarrow> string" where
  "jsonString s = jsonStringN (length s) s"

text \<open>A record as it is read back after it was written.\<close>

definition jsonRecord :: "PendingPush \<Rightarrow> PendingPush" where
  "jsonRecord p =
     \<lparr>ProposalID = jsonString (ProposalID p), Remote = jsonString (Remote p),
      SourceRef = jsonString (SourceRef p), TargetRef = jsonString (TargetRef p),
      NewOID = jsonString (NewOID p),
      GitArgs = (case GitArgs p of None \<Rightarrow> None | Some args \<Rightarrow> Some (map jsonString args)),
      Status = jsonString (Status p), Attempts = Attempts p,
      LastError = jsonString (LastError p), CreatedAt = jsonString (CreatedAt p),
      UpdatedAt = jsonString (UpdatedAt p), LastTriedAt = jsonString (LastTriedAt p),
      CompletedAt = jsonString (CompletedAt p)\<rparr>"

text \<open>\<open>writeOK\<close> says that writing and renaming the temporary file succeeded.\<close>

definition savePendingPushesLocked ::
  "bool \<Rightarrow> pendingFile \<Rightarrow> PendingPush list \<Rightarrow> pendingError option \<times> pendingFile" where
  "savePendingPushesLocked writeOK file pushes =
     (if writeOK then (None, FileContent (map jsonRecord pushes))
      else (Some ErrPendingWrite, file))"


text \<open>
  The loop of \<open>UpsertPendingPush\<close>: \<open>None\<close> when no record has the proposal id, otherwise
  the push as stored and the list with the first such record replaced.
\<close>

fun upsertLoop :: "PendingPush \<Rightarrow> PendingPush list \<Rightarrow> (PendingPush \<times> PendingPush list) option" where
  "upsertLoop push [] = None"
| "upsertLoop push (existing # rest) =
     (if ProposalID existing \<noteq> ProposalID push
      then (case upsertLoop push rest of
              None \<Rightarrow> None
            | Some (stored, rest') \<Rightarrow> Some (stored, existing # rest'))
      else
        let push = push\<lparr>CreatedAt := CreatedAt existing\<rparr>;
            push = (if sint (Attempts push) < sint (Attempts existing)
                    then push\<lparr>Attempts := Attempts existing\<rparr> else push)
        in Some (push, push # rest))"

definition UpsertPendingPush ::
  "string \<Rightarrow> string \<Rightarrow> bool \<Rightarrow> pendingFile \<Rightarrow> PendingPush
     \<Rightarrow> (pendingError + PendingPush) \<times> pendingFile" where
  "UpsertPendingPush nowC nowU writeOK file push =
     (case normalizePendingPush nowC nowU push True of
        Inl e \<Rightarrow> (Inl e, file)
      | Inr push \<Rightarrow>
          (case loadPendingPushesLocked file of
             Inl e \<Rightarrow> (Inl e, file)
           | Inr pushes \<Rightarrow>
               (case (case upsertLoop push pushes of
                        None \<Rightarrow> (push, pushes @ [push])
                      | Some replaced \<Rightarrow> replaced) of
                  (push, pushes) \<Rightarrow>
                    (case savePendingPushesLocked writeOK file pushes of
                       (Some e, file') \<Rightarrow> (Inl e, file')
                     | (None, file') \<Rightarrow> (Inr push, file')))))"

text \<open>The loop of \<open>updatePendingPushStatus\<close>: \<open>None\<close> when no record was updated.\<close>

fun statusLoop ::
  "string \<Rightarrow> string \<Rightarrow> string \<Rightarrow> string \<Rightarrow> PendingPush list \<Rightarrow> PendingPush list option" where
  "statusLoop proposalID status lastError now [] = None"
| "statusLoop proposalID status lastError now (push # rest) =
     (if ProposalID push \<noteq> proposalID
      then (case statusLoop proposalID status lastError now rest of
              None \<Rightarrow> None
            | Some rest' \<Rightarrow> Some (push # rest'))
      else
        let push = push\<lparr>Status := status\<rparr>;
            push = push\<lparr>LastError := strings_TrimSpace lastError\<rparr>;
            push = push\<lparr>UpdatedAt := now\<rparr>;
            push = push\<lparr>LastTriedAt := now\<rparr>;
            push = push\<lparr>Attempts := Attempts push + 1\<rparr>;
            push = (if status = PendingPushStatusCompleted
                    then push\<lparr>CompletedAt := now, LastError := []\<rparr> else push)
        in Some (push # rest))"

definition updatePendingPushStatus ::
  "string \<Rightarrow> bool \<Rightarrow> pendingFile \<Rightarrow> string \<Rightarrow> string \<Rightarrow> string
     \<Rightarrow> pendingError option \<times> pendingFile" where
  "updatePendingPushStatus now writeOK file proposalID status lastError =
     (let proposalID = strings_TrimSpace proposalID in
      if proposalID = [] then (Some ErrProposalIDRequired, file)
      else
        (case loadPendingPushesLocked file of
           Inl e \<Rightarrow> (Some e, file)
         | Inr pushes \<Rightarrow>
             (case statusLoop proposalID status lastError now pushes of
                None \<Rightarrow> (Some (ErrPendingNotFound proposalID), file)
              | Some pushes' \<Rightarrow> savePendingPushesLocked writeOK file pushes')))"

definition MarkPendingPushPending ::
  "string \<Rightarrow> bool \<Rightarrow> pendingFile \<Rightarrow> string \<Rightarrow> string \<Rightarrow> pendingError option \<times> pendingFile" where
  "MarkPendingPushPending now writeOK file proposalID message =
     updatePendingPushStatus now writeOK file proposalID PendingPushStatusPending message"

definition MarkPendingPushFailed ::
  "string \<Rightarrow> bool \<Rightarrow> pendingFile \<Rightarrow> string \<Rightarrow> string \<Rightarrow> pendingError option \<times> pendingFile" where
  "MarkPendingPushFailed now writeOK file proposalID message =
     updatePendingPushStatus now writeOK file proposalID PendingPushStatusFailed message"

definition MarkPendingPushCompleted ::
  "string \<Rightarrow> bool \<Rightarrow> pendingFile \<Rightarrow> string \<Rightarrow> pendingError option \<times> pendingFile" where
  "MarkPendingPushCompleted now writeOK file proposalID =
     updatePendingPushStatus now writeOK file proposalID PendingPushStatusCompleted []"

text \<open>Records for evaluation.\<close>

definition toyPush :: PendingPush where
  "toyPush =
     \<lparr>ProposalID = ''p1'', Remote = ''origin'', SourceRef = ''refs/heads/main'',
      TargetRef = ''refs/heads/main'', NewOID = ''2222'', GitArgs = Some [''origin'', ''main''],
      Status = ''pending'', Attempts = 3, LastError = ''old'', CreatedAt = ''T0'',
      UpdatedAt = ''T0'', LastTriedAt = [], CompletedAt = []\<rparr>"

definition toyPush2 :: PendingPush where
  "toyPush2 = toyPush\<lparr>ProposalID := ''p2'', CreatedAt := ''T1'', UpdatedAt := ''T1'', Attempts := 0\<rparr>"

text \<open>
  What the specification says a mark does to a record: the status, the trimmed message as
  last error (none for completed), both time stamps, one more attempt, and the completion
  time for completed.
\<close>

definition marked :: "string \<Rightarrow> string \<Rightarrow> string \<Rightarrow> PendingPush \<Rightarrow> PendingPush" where
  "marked status message now e =
     e\<lparr>Status := status,
       LastError := (if status = PendingPushStatusCompleted then []
                     else strings_TrimSpace message),
       UpdatedAt := now, LastTriedAt := now, Attempts := Attempts e + 1,
       CompletedAt := (if status = PendingPushStatusCompleted then now else CompletedAt e)\<rparr>"

text \<open>
  What the specification says a replacing upsert stores: the new record with the existing
  creation time and the larger number of attempts.
\<close>

definition replacing :: "PendingPush \<Rightarrow> PendingPush \<Rightarrow> PendingPush" where
  "replacing existing new =
     new\<lparr>CreatedAt := CreatedAt existing,
         Attempts := (if sint (Attempts new) < sint (Attempts existing)
                      then Attempts existing else Attempts new)\<rparr>"

section \<open>Processing the queue (processPendingPushes of the command)\<close>

























section \<open>The peer registry (normalizePeer and AddPeer of gossip/store.go)\<close>

subsection \<open>The fragment of net/url that is modelled\<close>

text \<open>
  \<open>normalizePeer\<close> calls \<open>url.Parse\<close> and \<open>URL.String\<close> of the Go standard library. The
  model follows \<open>url.Parse\<close> step by step on URLs whose host and path need no escaping:
  no user information, no IPv6 literal, a host of ASCII letters, digits and \<open>-._~:\<close>, a path
  of the characters that \<open>net/url\<close> writes unescaped in a path, a fragment without
  \<open>%\<close>. On any other input the model answers \<open>Unmodelled\<close> and nothing is stated about
  it. \<open>RawPath\<close>, \<open>RawFragment\<close> and \<open>User\<close> are always empty on this fragment and are
  left out of the record.
\<close>

record URL =
  Scheme :: string
  Opaque :: string
  Host :: string
  Path :: string
  OmitHost :: bool
  ForceQuery :: bool
  RawQuery :: string
  Fragment :: string

datatype parsed = ParseError | Unmodelled | Parsed URL

definition emptyURL :: URL where
  "emptyURL = \<lparr>Scheme = [], Opaque = [], Host = [], Path = [], OmitHost = False,
     ForceQuery = False, RawQuery = [], Fragment = []\<rparr>"

definition isLetter :: "char \<Rightarrow> bool" where
  "isLetter c = ((CHR ''a'' \<le> c \<and> c \<le> CHR ''z'') \<or> (CHR ''A'' \<le> c \<and> c \<le> CHR ''Z''))"

definition isDigit :: "char \<Rightarrow> bool" where
  "isDigit c = (CHR ''0'' \<le> c \<and> c \<le> CHR ''9'')"

definition stringContainsCTLByte :: "string \<Rightarrow> bool" where
  "stringContainsCTLByte s = list_ex (\<lambda>c. c < CHR 0x20 \<or> c = CHR 0x7F) s"

text \<open>\<open>strings.Contains\<close>, \<open>strings.Cut\<close> at a one-byte separator, \<open>strings.TrimSuffix\<close>.\<close>

fun strings_Contains :: "string \<Rightarrow> string \<Rightarrow> bool" where
  "strings_Contains [] sub = (sub = [])"
| "strings_Contains (c # cs) sub = (prefix sub (c # cs) \<or> strings_Contains cs sub)"

definition strings_Cut :: "string \<Rightarrow> char \<Rightarrow> string \<times> string" where
  "strings_Cut s sep = (takeWhile (\<lambda>c. c \<noteq> sep) s, drop 1 (dropWhile (\<lambda>c. c \<noteq> sep) s))"

definition strings_TrimSuffix :: "string \<Rightarrow> string \<Rightarrow> string" where
  "strings_TrimSuffix s suf = (if suffix suf s then take (length s - length suf) s else s)"

text \<open>
  \<open>strings.ToLower\<close> is applied to a scheme, which \<open>getScheme\<close> has restricted to ASCII
  letters, digits and \<open>+-.\<close>; on these it lowers the ASCII capital letters.
\<close>

definition strings_ToLower :: "string \<Rightarrow> string" where
  "strings_ToLower s =
     map (\<lambda>c. if CHR ''A'' \<le> c \<and> c \<le> CHR ''Z'' then char_of (of_char c + (32::nat)) else c) s"

datatype schemeResult = MissingScheme | SchemeAndRest string string

text \<open>The loop of \<open>getScheme\<close>; \<open>seen\<close> is the part of the URL before the position.\<close>

fun getSchemeLoop :: "string \<Rightarrow> string \<Rightarrow> string \<Rightarrow> schemeResult" where
  "getSchemeLoop rawURL seen [] = SchemeAndRest [] rawURL"
| "getSchemeLoop rawURL seen (c # cs) =
     (if isLetter c then getSchemeLoop rawURL (seen @ [c]) cs
      else if isDigit c \<or> c = CHR ''+'' \<or> c = CHR ''-'' \<or> c = CHR ''.''
      then (if seen = [] then SchemeAndRest [] rawURL else getSchemeLoop rawURL (seen @ [c]) cs)
      else if c = CHR '':''
      then (if seen = [] then MissingScheme else SchemeAndRest seen cs)
      else SchemeAndRest [] rawURL)"

definition getScheme :: "string \<Rightarrow> schemeResult" where
  "getScheme rawURL = getSchemeLoop rawURL [] rawURL"

text \<open>Characters of a host and of a path that the model covers.\<close>

definition hostPlain :: "char \<Rightarrow> bool" where
  "hostPlain c = (isLetter c \<or> isDigit c \<or> c \<in> set ''-._~:'')"

definition pathPlain :: "char \<Rightarrow> bool" where
  "pathPlain c = (isLetter c \<or> isDigit c \<or> c \<in> set ''-_.~$&+,/:;=@'')"

text \<open>
  \<open>parseAuthority\<close> and \<open>parseHost\<close>: the text after the last colon must be digits; user
  information, a bracketed host and characters outside \<open>hostPlain\<close> are not modelled.
\<close>

datatype hostResult = HostError | HostUnmodelled | HostOK string

definition validOptionalPort :: "string \<Rightarrow> bool" where
  "validOptionalPort port =
     (case port of [] \<Rightarrow> True | c # ds \<Rightarrow> c = CHR '':'' \<and> list_all isDigit ds)"

definition parseAuthority :: "string \<Rightarrow> hostResult" where
  "parseAuthority authority =
     (if CHR ''@'' \<in> set authority then HostUnmodelled
      else if prefix ''['' authority then HostUnmodelled
      else if CHR '':'' \<in> set authority
              \<and> \<not> validOptionalPort (CHR '':'' # rev (takeWhile (\<lambda>c. c \<noteq> CHR '':'') (rev authority)))
      then HostError
      else if list_all hostPlain authority then HostOK authority
      else HostUnmodelled)"

text \<open>The query part: a lone trailing \<open>?\<close> sets \<open>ForceQuery\<close>.\<close>

definition splitQuery :: "string \<Rightarrow> string \<times> bool \<times> string" where
  "splitQuery rest =
     (if suffix ''?'' rest \<and> count_list rest (CHR ''?'') = 1
      then (take (length rest - 1) rest, True, [])
      else (fst (strings_Cut rest (CHR ''?'')), False, snd (strings_Cut rest (CHR ''?''))))"

text \<open>\<open>setPath\<close> on a path that needs no escaping.\<close>

definition setPath :: "URL \<Rightarrow> string \<Rightarrow> parsed" where
  "setPath u p = (if list_all pathPlain p then Parsed (u\<lparr>Path := p\<rparr>) else Unmodelled)"

text \<open>The function \<open>parse\<close> of net/url, as \<open>url.Parse\<close> calls it (\<open>viaRequest\<close> false).\<close>

definition parse :: "string \<Rightarrow> parsed" where
  "parse rawURL =
     (if stringContainsCTLByte rawURL then ParseError
      else if rawURL = ''*'' then Parsed (emptyURL\<lparr>Path := ''*''\<rparr>)
      else
        (case getScheme rawURL of
           MissingScheme \<Rightarrow> ParseError
         | SchemeAndRest scheme rest \<Rightarrow>
             (case splitQuery rest of
                (rest, force, query) \<Rightarrow>
                  let u = emptyURL\<lparr>Scheme := strings_ToLower scheme, ForceQuery := force,
                                    RawQuery := query\<rparr>
                  in if \<not> prefix ''/'' rest \<and> Scheme u \<noteq> []
                     then Parsed (u\<lparr>Opaque := rest\<rparr>)
                     else if \<not> prefix ''/'' rest
                             \<and> CHR '':'' \<in> set (fst (strings_Cut rest (CHR ''/'')))
                     then ParseError
                     else if (Scheme u \<noteq> [] \<or> \<not> prefix ''///'' rest) \<and> prefix ''//'' rest
                     then
                       (let authority = fst (strings_Cut (drop 2 rest) (CHR ''/''));
                            rest = dropWhile (\<lambda>c. c \<noteq> CHR ''/'') (drop 2 rest)
                        in case parseAuthority authority of
                             HostError \<Rightarrow> ParseError
                           | HostUnmodelled \<Rightarrow> Unmodelled
                           | HostOK host \<Rightarrow> setPath (u\<lparr>Host := host\<rparr>) rest)
                     else if Scheme u \<noteq> [] \<and> prefix ''/'' rest
                     then setPath (u\<lparr>OmitHost := True\<rparr>) rest
                     else setPath u rest)))"

definition url_Parse :: "string \<Rightarrow> parsed" where
  "url_Parse rawURL =
     (case strings_Cut rawURL (CHR ''#'') of
        (u, frag) \<Rightarrow>
          (case parse u of
             ParseError \<Rightarrow> ParseError
           | Unmodelled \<Rightarrow> Unmodelled
           | Parsed url \<Rightarrow>
               if frag = [] then Parsed url
               else if CHR ''%'' \<in> set frag then Unmodelled
               else Parsed (url\<lparr>Fragment := frag\<rparr>)))"

text \<open>
  \<open>URL.String\<close> for a URL without user information whose host, path and fragment are
  written unescaped.
\<close>

definition url_String :: "URL \<Rightarrow> string" where
  "url_String u =
     (if Scheme u \<noteq> [] then Scheme u @ '':'' else [])
     @ (if Opaque u \<noteq> [] then Opaque u
        else
          (if (Scheme u \<noteq> [] \<or> Host u \<noteq> []) \<and> \<not> (OmitHost u \<and> Host u = [])
           then (if Host u \<noteq> [] \<or> Path u \<noteq> [] then ''//'' else []) @ Host u
           else [])
          @ (if Path u \<noteq> [] \<and> \<not> prefix ''/'' (Path u) \<and> Host u \<noteq> [] then ''/'' else [])
          @ (if Scheme u = [] \<and> Host u = []
                \<and> CHR '':'' \<in> set (fst (strings_Cut (Path u) (CHR ''/'')))
             then ''./'' else [])
          @ Path u)
     @ (if ForceQuery u \<or> RawQuery u \<noteq> [] then ''?'' @ RawQuery u else [])
     @ (if Fragment u \<noteq> [] then ''#'' @ Fragment u else [])"

subsection \<open>normalizePeer and AddPeer\<close>

text \<open>\<open>NotModelled\<close> is not an error of the program: the URL is outside the fragment.\<close>

datatype peerError =
    ErrPeerEmpty
  | ErrPeerInvalidURL
  | ErrPeerScheme
  | ErrPeerHostRequired
  | ErrPeerQueryOrFragment
  | ErrPeerSave
  | NotModelled

definition normalizePeer :: "string \<Rightarrow> peerError + string" where
  "normalizePeer raw =
     (let raw = strings_TrimSpace raw in
      if raw = [] then Inl ErrPeerEmpty
      else
        let raw = (if \<not> strings_Contains raw ''://'' then ''http://'' @ raw else raw) in
        (case url_Parse raw of
           ParseError \<Rightarrow> Inl ErrPeerInvalidURL
         | Unmodelled \<Rightarrow> Inl NotModelled
         | Parsed u \<Rightarrow>
             if Scheme u \<noteq> ''http'' \<and> Scheme u \<noteq> ''https'' then Inl ErrPeerScheme
             else if Host u = [] then Inl ErrPeerHostRequired
             else if RawQuery u \<noteq> [] \<or> Fragment u \<noteq> [] then Inl ErrPeerQueryOrFragment
             else
               let u = u\<lparr>Path := strings_TrimSuffix (Path u) ''/''\<rparr>;
                   u = (if Path u = ''/'' then u\<lparr>Path := []\<rparr> else u)
               in Inr (url_String u)))"

text \<open>
  \<open>AddPeer\<close>: \<open>saveOK\<close> says that writing the peers file succeeded. The list in memory is
  already extended and sorted when the file is written.
\<close>

definition AddPeer :: "bool \<Rightarrow> Store \<Rightarrow> string \<Rightarrow> (peerError + string) \<times> Store" where
  "AddPeer saveOK s raw =
     (case normalizePeer raw of
        Inl e \<Rightarrow> (Inl e, s)
      | Inr normalized \<Rightarrow>
          if normalized \<in> set (peers s) then (Inr normalized, s)
          else
            let s = s\<lparr>peers := sort (peers s @ [normalized])\<rparr>
            in if saveOK then (Inr normalized, s) else (Inl ErrPeerSave, s))"

text \<open>
  The strings that \<open>normalizePeer\<close> returns: scheme, host, path and the question mark of
  \<open>ForceQuery\<close>. \<open>fixPath\<close> is what \<open>normalizePeer\<close> does to the path.
\<close>

definition canonical :: "string \<Rightarrow> string \<Rightarrow> string \<Rightarrow> bool \<Rightarrow> string" where
  "canonical sch h p fq = sch @ ''://'' @ h @ p @ (if fq then ''?'' else [])"

definition fixPath :: "string \<Rightarrow> string" where
  "fixPath p = (if strings_TrimSuffix p ''/'' = ''/'' then [] else strings_TrimSuffix p ''/'')"

text \<open>A normalised peer that still ends in a slash (before the question mark, if any).\<close>

definition endsInSlash :: "string \<Rightarrow> bool" where
  "endsInSlash out = (suffix ''/'' out \<or> suffix ''/?'' out)"

section \<open>Properties of the operation log\<close>

lemma addOperationLocked_reject:
  "verifyOperation L op = Some e \<Longrightarrow> addOperationLocked L d s op p = ((False, Some e), s)"
  by (simp add: addOperationLocked_def)

lemma addOperationLocked_duplicate:
  "verifyOperation L op = None \<Longrightarrow> ID op \<in> opIDs s \<Longrightarrow>
   addOperationLocked L d s op p = ((False, None), s)"
  by (simp add: addOperationLocked_def)

lemma addOperationLocked_conflict:
  "verifyOperation L op = None \<Longrightarrow> ID op \<notin> opIDs s \<Longrightarrow>
   authorSeqIndex s (authorSeqKey (Author op) (Seq op)) = Some x \<Longrightarrow> x \<noteq> ID op \<Longrightarrow>
   addOperationLocked L d s op p = ((False, Some (ErrConflict (Author op) (Seq op))), s)"
  by (simp add: addOperationLocked_def)

lemma addOperationLocked_state:
  "snd (addOperationLocked L d s op p) = s \<or>
   (verifyOperation L op = None \<and> ID op \<notin> opIDs s \<and>
    (\<forall>x. authorSeqIndex s (authorSeqKey (Author op) (Seq op)) = Some x \<longrightarrow> x = ID op) \<and>
    snd (addOperationLocked L d s op p) = accepted s op)"
  by (auto simp: addOperationLocked_def accepted_def Let_def appendOpLocked_def
           split: option.splits)

lemma verifyOperation_Seq: "verifyOperation L op = None \<Longrightarrow> Seq op \<noteq> 0"
  by (auto simp: verifyOperation_def split: if_splits)

lemma AppendLocalOp_state:
  "snd (AppendLocalOp L now d s ty payload) = s \<or>
   (\<exists>op. snd (AppendLocalOp L now d s ty payload) = snd (addOperationLocked L d s op True))"
proof -
  define ty' where "ty' = strings_TrimSpace ty"
  define p' where "p' = (if length payload = 0 then ''{}'' else payload)"
  define op0 where "op0 = \<lparr>ID = [], Type = ty', Author = NodeID (identity s),
     Seq = seqOf (seqByAuthor s) (NodeID (identity s)) + 1, Timestamp = now,
     Payload = cloneRawJSON p', PublicKey = IdentityPublicKey (identity s), Signature = []\<rparr>"
  show ?thesis
  proof (cases "ty' = [] \<or> \<not> json_Valid L p'")
    case True
    then show ?thesis
      by (auto simp: AppendLocalOp_def Let_def ty'_def p'_def)
  next
    case False
    show ?thesis
    proof (cases "signOperation L op0 (privateKey s)")
      case (Inl e)
      with False show ?thesis
        by (simp add: AppendLocalOp_def Let_def ty'_def p'_def op0_def)
    next
      case (Inr r)
      obtain sg i where r: "r = (sg, i)" by (cases r)
      have "snd (AppendLocalOp L now d s ty payload) =
            snd (addOperationLocked L d s (op0\<lparr>Signature := sg, ID := i\<rparr>) True)"
        using False Inr r
        by (simp add: AppendLocalOp_def Let_def ty'_def p'_def op0_def
                 split: prod.splits option.splits)
      then show ?thesis by blast
    qed
  qed
qed



lemma step_cases:
  "step L s c = s \<or>
   (\<exists>op. verifyOperation L op = None \<and> ID op \<notin> opIDs s \<and>
      (\<forall>x. authorSeqIndex s (authorSeqKey (Author op) (Seq op)) = Some x \<longrightarrow> x = ID op) \<and>
      step L s c = accepted s op)"
proof (cases c)
  case (CallAppendLocalOp now d ty payload)
  then show ?thesis
    using AppendLocalOp_state [of L now d s ty payload] addOperationLocked_state [of L d s _ True]
    by (metis step.simps(1))
next
  case (CallAddRemoteOp d op)
  then show ?thesis
    using addOperationLocked_state [of L d s op True] by (auto simp: AddRemoteOp_def)
next
  case (CallLoadOp op)
  then show ?thesis
    using addOperationLocked_state [of L True s op False] by auto
qed

lemma run_snoc: "run L s (cs @ [c]) = step L (run L s cs) c"
  by (simp add: run_def)

lemma run_induct [consumes 0, case_names init accept]:
  assumes "P (newStore idn priv ps)"
    and "\<And>s op. P s \<Longrightarrow> verifyOperation L op = None \<Longrightarrow> ID op \<notin> opIDs s \<Longrightarrow>
          (\<forall>x. authorSeqIndex s (authorSeqKey (Author op) (Seq op)) = Some x \<longrightarrow> x = ID op) \<Longrightarrow>
          P (accepted s op)"
  shows "P (run L (newStore idn priv ps) cs)"
proof (induction cs rule: rev_induct)
  case Nil
  show ?case using assms(1) by (simp add: run_def)
next
  case (snoc c cs)
  show ?case
    using step_cases [of L "run L (newStore idn priv ps) cs" c] snoc assms(2)
    by (auto simp: run_snoc)
qed

lemma run_opIDs: "opIDs (run L (newStore idn priv ps) cs) = ID ` set (ops (run L (newStore idn priv ps) cs))"
  by (rule run_induct) (auto simp: newStore_def accepted_def)

lemma run_index:
  "\<forall>op\<in>set (ops (run L (newStore idn priv ps) cs)).
     authorSeqIndex (run L (newStore idn priv ps) cs) (authorSeqKey (Author op) (Seq op)) = Some (ID op)"
  by (rule run_induct) (auto simp: newStore_def accepted_def)


lemma seqsOf_snoc:
  "seqsOf (log @ [op]) a = (if Author op = a then insert (Seq op) (seqsOf log a) else seqsOf log a)"
  by (auto simp: seqsOf_def)

lemma finite_seqsOf: "finite (seqsOf log a)"
  by (simp add: seqsOf_def)

lemma run_seqByAuthor:
  "seqByAuthor (run L (newStore idn priv ps) cs) a =
     (if seqsOf (ops (run L (newStore idn priv ps) cs)) a = {} then None
      else Some (Max (seqsOf (ops (run L (newStore idn priv ps) cs)) a)))"
proof (rule run_induct)
  show "seqByAuthor (newStore idn priv ps) a =
     (if seqsOf (ops (newStore idn priv ps)) a = {} then None
      else Some (Max (seqsOf (ops (newStore idn priv ps)) a)))"
    by (simp add: newStore_def seqsOf_def)
next
  fix s :: Store and op :: Operation
  assume IH: "seqByAuthor s a =
     (if seqsOf (ops s) a = {} then None else Some (Max (seqsOf (ops s) a)))"
    and v: "verifyOperation L op = None"
  have nz: "0 < Seq op" using verifyOperation_Seq [OF v] by (simp add: word_neq_0_conv)
  show "seqByAuthor (accepted s op) a =
     (if seqsOf (ops (accepted s op)) a = {} then None
      else Some (Max (seqsOf (ops (accepted s op)) a)))"
  proof (cases "Author op = a")
    case False
    then show ?thesis using IH by (simp add: accepted_def seqsOf_snoc)
  next
    case True
    show ?thesis
    proof (cases "seqsOf (ops s) a = {}")
      case e: True
      then show ?thesis using IH True nz
        by (simp add: accepted_def seqsOf_snoc seqOf_def)
    next
      case ne: False
      define M where "M = Max (seqsOf (ops s) a)"
      have m: "Max (insert (Seq op) (seqsOf (ops s) a)) = max (Seq op) M"
        unfolding M_def using ne finite_seqsOf [of "ops s" a] by (rule_tac Max_insert)
      have IH': "seqByAuthor s a = Some M"
        using IH ne by (simp add: M_def)
      have new_set: "seqsOf (ops (accepted s op)) a = insert (Seq op) (seqsOf (ops s) a)"
        using True by (simp add: accepted_def seqsOf_snoc)
      have lhs: "seqByAuthor (accepted s op) a = (if M < Seq op then Some (Seq op) else Some M)"
        using IH' True by (simp add: accepted_def seqOf_def)
      show ?thesis
        unfolding new_set lhs m by (auto simp: max_def)
    qed
  qed
qed


lemma toy_verify1: "verifyOperation toyLib toyOp1 = None" by code_simp
lemma toy_verify2: "verifyOperation toyLib toyOp2 = None" by code_simp
lemma toy_verifyR: "verifyOperation toyLib toyRival1 = None" by code_simp
lemma toy_verifyC: "verifyOperation toyLib toyCert2 = None" by code_simp
lemma toy_ops1: "ops toyLog1 = [toyOp1]" by code_simp
lemma toy_tampered: "verifyOperation toyLib (toyOp1\<lparr>Payload := ''[2]''\<rparr>) = Some ErrInvalidSignature" by code_simp

lemma verifyOperation_not_IO: "verifyOperation L op \<noteq> Some ErrIO"
  by (auto simp: verifyOperation_def canonicalOperationBytes_def Let_def
           split: if_splits option.splits sum.splits)

text \<open>
  Claim C10. Whenever \<open>AddRemoteOp\<close> returns false for a verification error, a
  duplicate id or an (author, seq) conflict, the store is exactly what it was before the
  call, and so are the operations returned by \<open>Ops\<close> and the map returned by
  \<open>Summary\<close>. These three are the returns of false whose error is not the I/O error of
  the log file (\<open>verifyOperation\<close> never gives that error).
\<close>

theorem AddRemoteOp_rejection_atomic:
  assumes "AddRemoteOp L diskOK s op = ((False, err), s')" and "err \<noteq> Some ErrIO"
  shows "s' = s \<and> Ops s' limit = Ops s limit \<and> Summary s' = Summary s"
proof -
  have "s' = s"
    using assms verifyOperation_not_IO [of L op]
    by (auto simp: AddRemoteOp_def addOperationLocked_def Let_def appendOpLocked_def
             split: option.splits if_splits)
  then show ?thesis by simp
qed

theorem AddRemoteOp_rejection_atomic_witness:
  "AddRemoteOp toyLib True toyLog1 (toyOp1\<lparr>Payload := ''[2]''\<rparr>)
     = ((False, Some ErrInvalidSignature), toyLog1) \<and>
   Ops toyLog1 0 = [toyOp1] \<and> Summary toyLog1 (Author toyOp1) = Some 1"
proof -
  have r: "AddRemoteOp toyLib True toyLog1 (toyOp1\<lparr>Payload := ''[2]''\<rparr>)
     = ((False, Some ErrInvalidSignature), toyLog1)"
    by (simp add: AddRemoteOp_def addOperationLocked_reject [OF toy_tampered])
  have o: "Ops toyLog1 0 = [toyOp1]"
    by (simp add: Ops_def toy_ops1 sort_SliceStable_def)
  have m: "Summary toyLog1 (Author toyOp1) = Some 1" by code_simp
  from r o m AddRemoteOp_rejection_atomic [OF r, of 0] show ?thesis by simp
qed

text \<open>
  Claim C2. \<open>AddRemoteOp\<close> runs the full verification first, then the duplicate check,
  then the conflict check. For any store reached from a newly opened store by calls of
  its operations: an operation that fails \<open>verifyOperation\<close> returns that verification
  error; an operation that passes and whose id is already in the log returns
  (false, nil); an operation that passes, whose id is not in the log and whose
  (author, seq) pair is in the log under a different id returns the conflict error. The
  store is unchanged in all three cases.
\<close>

theorem AddRemoteOp_outcomes:
  assumes "s = run L (newStore idn priv ps) cs"
  shows "(\<forall>e. verifyOperation L op = Some e \<longrightarrow> AddRemoteOp L diskOK s op = ((False, Some e), s)) \<and>
    (verifyOperation L op = None \<and> ID op \<in> ID ` set (ops s) \<longrightarrow>
       AddRemoteOp L diskOK s op = ((False, None), s)) \<and>
    (verifyOperation L op = None \<and> ID op \<notin> ID ` set (ops s) \<and>
       (\<exists>x\<in>set (ops s). Author x = Author op \<and> Seq x = Seq op \<and> ID x \<noteq> ID op) \<longrightarrow>
       AddRemoteOp L diskOK s op = ((False, Some (ErrConflict (Author op) (Seq op))), s))"
proof (intro conjI allI impI)
  fix e assume "verifyOperation L op = Some e"
  then show "AddRemoteOp L diskOK s op = ((False, Some e), s)"
    by (simp add: AddRemoteOp_def addOperationLocked_reject)
next
  assume "verifyOperation L op = None \<and> ID op \<in> ID ` set (ops s)"
  then show "AddRemoteOp L diskOK s op = ((False, None), s)"
    using run_opIDs [of L idn priv ps cs] assms
    by (simp add: AddRemoteOp_def addOperationLocked_duplicate)
next
  assume a: "verifyOperation L op = None \<and> ID op \<notin> ID ` set (ops s) \<and>
       (\<exists>x\<in>set (ops s). Author x = Author op \<and> Seq x = Seq op \<and> ID x \<noteq> ID op)"
  then obtain x where x: "x \<in> set (ops s)" "Author x = Author op" "Seq x = Seq op" "ID x \<noteq> ID op"
    by blast
  have "authorSeqIndex s (authorSeqKey (Author op) (Seq op)) = Some (ID x)"
    using run_index [of L idn priv ps cs] assms x by force
  moreover have "ID op \<notin> opIDs s"
    using a run_opIDs [of L idn priv ps cs] assms by simp
  ultimately show "AddRemoteOp L diskOK s op = ((False, Some (ErrConflict (Author op) (Seq op))), s)"
    using a x(4) by (simp add: AddRemoteOp_def addOperationLocked_conflict)
qed

theorem AddRemoteOp_outcomes_witness:
  "AddRemoteOp toyLib True toyLog1 (toyOp1\<lparr>Payload := ''[2]''\<rparr>)
     = ((False, Some ErrInvalidSignature), toyLog1) \<and>
   AddRemoteOp toyLib True toyLog1 toyOp1 = ((False, None), toyLog1) \<and>
   AddRemoteOp toyLib True toyLog1 toyRival1
     = ((False, Some (ErrConflict ''4b314b314b314b31'' 1)), toyLog1)"
proof -
  have s: "toyLog1 = run toyLib (newStore toyIdentity toyKey [])
             [CallAppendLocalOp ''t1'' True ''git.commit'' []]"
    by (simp add: toyLog1_def toyStore_def)
  have r: "ID toyRival1 \<notin> ID ` set (ops toyLog1) \<and>
       (\<exists>x\<in>set (ops toyLog1). Author x = Author toyRival1 \<and> Seq x = Seq toyRival1 \<and> ID x \<noteq> ID toyRival1)"
    by (simp add: toy_ops1) (simp add: toyOp1_def toyRival1_def)
  have d: "ID toyOp1 \<in> ID ` set (ops toyLog1)" by (simp add: toy_ops1)
  have a: "Author toyRival1 = ''4b314b314b314b31''" "Seq toyRival1 = 1"
    by (simp_all add: toyRival1_def)
  show ?thesis
    using AddRemoteOp_outcomes [OF s, of "toyOp1\<lparr>Payload := ''[2]''\<rparr>" True]
      AddRemoteOp_outcomes [OF s, of toyOp1 True]
      AddRemoteOp_outcomes [OF s, of toyRival1 True]
      toy_tampered toy_verify1 toy_verifyR r d a
    by simp
qed

text \<open>
  Claim C9. In every state reached from a newly opened store by calls of
  \<open>AppendLocalOp\<close>, \<open>AddRemoteOp\<close> and the replay of the log file, \<open>Summary\<close>
  contains exactly the authors that appear in the log and maps each of them to the
  maximum sequence number among that author's stored operations.
\<close>

theorem Summary_faithful:
  assumes "s = run L (newStore idn priv ps) cs"
  shows "dom (Summary s) = Author ` set (ops s) \<and>
         (\<forall>a\<in>Author ` set (ops s). Summary s a = Some (Max (seqsOf (ops s) a)))"
proof -
  have e: "\<And>a. (seqsOf (ops s) a = {}) = (a \<notin> Author ` set (ops s))"
    by (auto simp: seqsOf_def filter_empty_conv)
  have m: "\<And>a. Summary s a = (if a \<notin> Author ` set (ops s) then None
                                  else Some (Max (seqsOf (ops s) a)))"
    using run_seqByAuthor [of L idn priv ps cs, folded assms] by (simp add: Summary_def e)
  show ?thesis
    by (auto simp: m dom_def)
qed

lemma toy_ops3: "ops toyLog3 = [toyOp1, toyOp2, toyCert2]" by code_simp

theorem Summary_faithful_witness:
  "dom (Summary toyLog3) = {''4b314b314b314b31'', ''4b324b324b324b32''} \<and>
   Summary toyLog3 ''4b314b314b314b31'' = Some 2 \<and>
   Summary toyLog3 ''4b324b324b324b32'' = Some 2"
proof -
  have s: "toyLog3 = run toyLib (newStore toyIdentity toyKey [])
     [CallAppendLocalOp ''t1'' True ''git.commit'' [],
      CallAppendLocalOp ''t2'' True ''git.push'' ''{}'',
      CallAddRemoteOp True toyCert2]"
    by (simp add: toyLog3_def toyStore_def)
  have a: "Author ` set (ops toyLog3) = {''4b314b314b314b31'', ''4b324b324b324b32''}"
    by (simp add: toy_ops3) (simp add: toyOp1_def toyOp2_def toyCert2_def)
  have m1: "seqsOf (ops toyLog3) ''4b314b314b314b31'' = {1, 2}"
    by (simp add: toy_ops3 seqsOf_def) (auto simp: toyOp1_def toyOp2_def toyCert2_def)
  have m2: "seqsOf (ops toyLog3) ''4b324b324b324b32'' = {2}"
    by (simp add: toy_ops3 seqsOf_def) (auto simp: toyOp1_def toyOp2_def toyCert2_def)
  show ?thesis
    using Summary_faithful [OF s] by (simp add: a m1 m2)
qed

lemma opLess_opKey: "opLess a b \<longleftrightarrow> opKey a < opKey b"
  by (auto simp: opLess_def opKey_def less_prod_def)

lemma insertStable_insort_key:
  "(\<And>a b. lt a b \<longleftrightarrow> f a < f b) \<Longrightarrow> insertStable lt x ys = insort_key f x ys"
  by (induction ys) (auto simp: not_less)

lemma sort_SliceStable_sort_key:
  assumes "\<And>a b. lt a b \<longleftrightarrow> f a < f b"
  shows "sort_SliceStable lt xs = sort_key f xs"
proof -
  have "insertStable lt = insort_key f"
    using insertStable_insort_key [of lt f, OF assms] by (intro ext)
  then show ?thesis
    by (simp add: sort_SliceStable_def sort_key_def)
qed

lemma missingLoop_unlimited:
  "limit \<le> 0 \<Longrightarrow>
   missingLoop m limit out xs = out @ filter (\<lambda>op. seqOf m (Author op) < Seq op) xs"
  by (induction xs arbitrary: out) (auto simp: Let_def)

lemma missingLoop_limited:
  "0 < limit \<Longrightarrow> int (length out) < limit \<Longrightarrow>
   missingLoop m limit out xs =
     take (nat limit) (out @ filter (\<lambda>op. seqOf m (Author op) < Seq op) xs)"
proof (induction xs arbitrary: out)
  case Nil
  then show ?case by simp
next
  case (Cons x xs)
  show ?case
  proof (cases "seqOf m (Author x) < Seq x")
    case False
    then show ?thesis using Cons by simp
  next
    case True
    show ?thesis
    proof (cases "int (length (out @ [x])) \<ge> limit")
      case full: True
      then have "nat limit = length out + 1" using Cons.prems by simp
      then show ?thesis using True full Cons.prems by (simp add: Let_def)
    next
      case False
      then have "int (length (out @ [x])) < limit" by simp
      from Cons.IH [OF Cons.prems(1) this] True False show ?thesis
        by (simp add: Let_def)
    qed
  qed
qed

text \<open>
  Claim C5. For any store, any summary (\<open>nil\<close> read as empty, a missing author read as
  0) and any limit, \<open>MissingFor\<close> returns the stored operations whose sequence number
  is greater than the summary's entry for their author, each as often as it is stored,
  ordered by author and then by sequence number, and cut after the first \<open>limit\<close> of
  them in that order when \<open>limit > 0\<close>. Here \<open>wanted\<close> is the stable sort of the log by
  (author, seq), filtered.
\<close>

theorem MissingFor_correct:
  fixes s :: Store and summary :: "(string \<rightharpoonup> 64 word) option" and limit :: int
  defines "wanted \<equiv> filter (newerThan summary) (sort_key opKey (ops s))"
  shows "MissingFor s summary limit = (if 0 < limit then take (nat limit) wanted else wanted) \<and>
         sorted (map opKey wanted) \<and>
         mset wanted = filter_mset (newerThan summary) (mset (ops s))"
proof -
  have srt: "sort_SliceStable opLess (ops s) = sort_key opKey (ops s)"
    by (rule sort_SliceStable_sort_key) (rule opLess_opKey)
  have eq: "MissingFor s summary limit = (if 0 < limit then take (nat limit) wanted else wanted)"
  proof (cases "0 < limit")
    case True
    then show ?thesis
      using missingLoop_limited [of limit "[]"]
      by (simp add: MissingFor_def srt wanted_def newerThan_def [abs_def])
  next
    case False
    then show ?thesis
      using missingLoop_unlimited [of limit]
      by (simp add: MissingFor_def srt wanted_def newerThan_def [abs_def])
  qed
  have "sorted (map opKey wanted)"
    unfolding wanted_def by (simp add: sorted_filter)
  moreover have "mset wanted = filter_mset (newerThan summary) (mset (ops s))"
    unfolding wanted_def by simp
  ultimately show ?thesis using eq by simp
qed

lemma toy_ops4: "ops toyLog4 = [toyCert2, toyOp1, toyOp2]" by code_simp

theorem MissingFor_correct_witness:
  "MissingFor toyLog4 (Some [''4b314b314b314b31'' \<mapsto> 1]) 0 = [toyOp2, toyCert2] \<and>
   MissingFor toyLog4 None 2 = [toyOp1, toyOp2]"
proof -
  have a: "filter (newerThan (Some [''4b314b314b314b31'' \<mapsto> 1]))
             (sort_key opKey [toyCert2, toyOp1, toyOp2]) = [toyOp2, toyCert2]"
    by code_simp
  have b: "filter (newerThan None) (sort_key opKey [toyCert2, toyOp1, toyOp2])
             = [toyOp1, toyOp2, toyCert2]"
    by code_simp
  have c: "MissingFor toyLog4 (Some [''4b314b314b314b31'' \<mapsto> 1]) 0 = [toyOp2, toyCert2]"
    using MissingFor_correct [of toyLog4 "Some [''4b314b314b314b31'' \<mapsto> 1]" 0, THEN conjunct1]
    unfolding toy_ops4 a by simp
  have d: "MissingFor toyLog4 None 2 = [toyOp1, toyOp2]"
    using MissingFor_correct [of toyLog4 None 2, THEN conjunct1]
    unfolding toy_ops4 b by simp
  from c d show ?thesis by simp
qed
























section \<open>Properties of the pending-push queue\<close>

lemma statusLoop_None:
  "(statusLoop pid st le now ps = None) = (\<forall>x\<in>set ps. ProposalID x \<noteq> pid)"
  by (induction ps) (auto simp: Let_def split: option.splits)

lemma statusLoop_Some:
  "(\<forall>x\<in>set pre. ProposalID x \<noteq> pid) \<Longrightarrow> ProposalID e = pid \<Longrightarrow>
   statusLoop pid st le now (pre @ e # post) = Some (pre @ marked st le now e # post)"
proof (induction pre)
  case Nil
  then show ?case
    by (simp add: Let_def marked_def)
next
  case (Cons a pre)
  then show ?case by simp
qed

lemma updatePendingPushStatus_found:
  assumes "loadPendingPushesLocked file = Inr (pre @ e # post)"
    and "strings_TrimSpace proposalID \<noteq> []"
    and "\<forall>x\<in>set pre. ProposalID x \<noteq> strings_TrimSpace proposalID"
    and "ProposalID e = strings_TrimSpace proposalID"
  shows "updatePendingPushStatus now w file proposalID st le
           = (if w then (None, FileContent (map jsonRecord (pre @ marked st le now e # post)))
              else (Some ErrPendingWrite, file))"
  using assms statusLoop_Some [of pre "strings_TrimSpace proposalID" e st le now post]
  by (simp add: updatePendingPushStatus_def Let_def savePendingPushesLocked_def)

lemma updatePendingPushStatus_blank:
  "strings_TrimSpace proposalID = [] \<Longrightarrow>
   updatePendingPushStatus now w file proposalID st le = (Some ErrProposalIDRequired, file)"
  by (simp add: updatePendingPushStatus_def)

lemma updatePendingPushStatus_not_found:
  assumes "loadPendingPushesLocked file = Inr pushes"
  shows "(fst (updatePendingPushStatus now w file proposalID st le)
            = Some (ErrPendingNotFound (strings_TrimSpace proposalID)))
       = (strings_TrimSpace proposalID \<noteq> [] \<and>
          (\<forall>x\<in>set pushes. ProposalID x \<noteq> strings_TrimSpace proposalID))"
proof (cases "strings_TrimSpace proposalID = []")
  case True
  then show ?thesis by (simp add: updatePendingPushStatus_def)
next
  case False
  show ?thesis
  proof (cases "statusLoop (strings_TrimSpace proposalID) st le now pushes")
    case None
    with False assms show ?thesis
      using statusLoop_None [of "strings_TrimSpace proposalID" st le now pushes]
      by (simp add: updatePendingPushStatus_def Let_def)
  next
    case (Some ps)
    with False assms show ?thesis
      using statusLoop_None [of "strings_TrimSpace proposalID" st le now pushes]
      by (auto simp: updatePendingPushStatus_def Let_def savePendingPushesLocked_def)
  qed
qed

lemma marked_fields:
  "Status (marked st msg now e) = st \<and>
   UpdatedAt (marked st msg now e) = now \<and>
   LastTriedAt (marked st msg now e) = now \<and>
   Attempts (marked st msg now e) = Attempts e + 1 \<and>
   LastError (marked st msg now e)
     = (if st = PendingPushStatusCompleted then [] else strings_TrimSpace msg) \<and>
   CompletedAt (marked st msg now e)
     = (if st = PendingPushStatusCompleted then now else CompletedAt e) \<and>
   ProposalID (marked st msg now e) = ProposalID e \<and>
   Remote (marked st msg now e) = Remote e \<and>
   SourceRef (marked st msg now e) = SourceRef e \<and>
   TargetRef (marked st msg now e) = TargetRef e \<and>
   NewOID (marked st msg now e) = NewOID e \<and>
   GitArgs (marked st msg now e) = GitArgs e \<and>
   CreatedAt (marked st msg now e) = CreatedAt e"
  by (simp add: marked_def)

text \<open>A byte is below 0x80 exactly when its top bit is clear; evaluation uses this.\<close>

lemma byteIn_ascii [code_unfold]: "byteIn c 0x00 0x7F = (\<not> digit7 c)"
proof (cases c)
  case (Char b0 b1 b2 b3 b4 b5 b6 b7)
  then show ?thesis
    by (simp add: byteIn_def Let_def)
qed

lemma jsonStringN_ascii:
  "length s \<le> n \<Longrightarrow> \<forall>c\<in>set s. (of_char c :: int) < 128 \<Longrightarrow> jsonStringN n s = s"
proof (induction n arbitrary: s)
  case 0
  then show ?case by simp
next
  case (Suc n)
  show ?case
  proof (cases s)
    case Nil
    then show ?thesis by simp
  next
    case (Cons c r)
    have "0 \<le> (of_char c :: int)"
      by (metis of_nat_of_char of_nat_0_le_iff)
    with Cons Suc.prems have w: "runeWidth s = 1"
      by (simp add: runeWidth_def byteIn_def Let_def)
    from Cons Suc.prems have "jsonStringN n r = r"
      by (intro Suc.IH) simp_all
    with Cons w show ?thesis by simp
  qed
qed

lemma jsonString_ascii:
  "\<forall>c\<in>set s. (of_char c :: int) < 128 \<Longrightarrow> jsonString s = s"
  by (simp add: jsonString_def jsonStringN_ascii)

text \<open>
  Claim C7, as amended. Let \<open>pid\<close> be the trimmed proposal id. When \<open>pid\<close> is empty,
  each of \<open>MarkPendingPushPending\<close>, \<open>MarkPendingPushFailed\<close> and
  \<open>MarkPendingPushCompleted\<close> returns the error "proposal ID is required" and leaves
  the file alone, whatever the file holds. When the queue loads, \<open>pid\<close> is not empty and
  \<open>e\<close> is the first record of the loaded queue with that id, each of the three replaces
  \<open>e\<close> by \<open>e\<close> with the corresponding status, \<open>updated_at\<close> and \<open>last_tried_at\<close>
  set to the clock reading and \<open>attempts\<close> incremented by one (as a 64-bit integer);
  Completed also sets \<open>completed_at\<close> and clears \<open>last_error\<close>, Pending and Failed
  store the trimmed message as \<open>last_error\<close>; every other field of \<open>e\<close> and every
  other record is kept. The file then holds the loaded queue with that replacement, each
  string as \<open>encoding/json\<close> gives it back (\<open>jsonRecord\<close>); when the write fails the
  write error is returned and the file is unchanged. When the queue loads, each of the
  three returns the not-found error exactly when \<open>pid\<close> is not empty and no record of
  the queue has it.
\<close>

theorem mark_status_semantics:
  "(strings_TrimSpace proposalID = [] \<longrightarrow>
      (\<forall>w. MarkPendingPushPending now w file proposalID message
             = (Some ErrProposalIDRequired, file) \<and>
           MarkPendingPushFailed now w file proposalID message
             = (Some ErrProposalIDRequired, file) \<and>
           MarkPendingPushCompleted now w file proposalID
             = (Some ErrProposalIDRequired, file))) \<and>
   (\<forall>pre e post.
      loadPendingPushesLocked file = Inr (pre @ e # post) \<and>
      strings_TrimSpace proposalID \<noteq> [] \<and>
      (\<forall>x\<in>set pre. ProposalID x \<noteq> strings_TrimSpace proposalID) \<and>
      ProposalID e = strings_TrimSpace proposalID \<longrightarrow>
        MarkPendingPushPending now True file proposalID message
          = (None, FileContent (map jsonRecord
               (pre @ marked PendingPushStatusPending message now e # post))) \<and>
        MarkPendingPushFailed now True file proposalID message
          = (None, FileContent (map jsonRecord
               (pre @ marked PendingPushStatusFailed message now e # post))) \<and>
        MarkPendingPushCompleted now True file proposalID
          = (None, FileContent (map jsonRecord
               (pre @ marked PendingPushStatusCompleted [] now e # post))) \<and>
        MarkPendingPushPending now False file proposalID message = (Some ErrPendingWrite, file) \<and>
        MarkPendingPushFailed now False file proposalID message = (Some ErrPendingWrite, file) \<and>
        MarkPendingPushCompleted now False file proposalID = (Some ErrPendingWrite, file)) \<and>
   (\<forall>st msg e.
      Status (marked st msg now e) = st \<and>
      UpdatedAt (marked st msg now e) = now \<and>
      LastTriedAt (marked st msg now e) = now \<and>
      Attempts (marked st msg now e) = Attempts e + 1 \<and>
      LastError (marked st msg now e)
        = (if st = PendingPushStatusCompleted then [] else strings_TrimSpace msg) \<and>
      CompletedAt (marked st msg now e)
        = (if st = PendingPushStatusCompleted then now else CompletedAt e) \<and>
      ProposalID (marked st msg now e) = ProposalID e \<and>
      Remote (marked st msg now e) = Remote e \<and>
      SourceRef (marked st msg now e) = SourceRef e \<and>
      TargetRef (marked st msg now e) = TargetRef e \<and>
      NewOID (marked st msg now e) = NewOID e \<and>
      GitArgs (marked st msg now e) = GitArgs e \<and>
      CreatedAt (marked st msg now e) = CreatedAt e) \<and>
   (\<forall>pushes w.
      loadPendingPushesLocked file = Inr pushes \<longrightarrow>
        ((fst (MarkPendingPushPending now w file proposalID message)
            = Some (ErrPendingNotFound (strings_TrimSpace proposalID)))
          = (strings_TrimSpace proposalID \<noteq> [] \<and>
             (\<forall>x\<in>set pushes. ProposalID x \<noteq> strings_TrimSpace proposalID))) \<and>
        ((fst (MarkPendingPushFailed now w file proposalID message)
            = Some (ErrPendingNotFound (strings_TrimSpace proposalID)))
          = (strings_TrimSpace proposalID \<noteq> [] \<and>
             (\<forall>x\<in>set pushes. ProposalID x \<noteq> strings_TrimSpace proposalID))) \<and>
        ((fst (MarkPendingPushCompleted now w file proposalID)
            = Some (ErrPendingNotFound (strings_TrimSpace proposalID)))
          = (strings_TrimSpace proposalID \<noteq> [] \<and>
             (\<forall>x\<in>set pushes. ProposalID x \<noteq> strings_TrimSpace proposalID))))"
proof -
  have blank: "strings_TrimSpace proposalID = [] \<longrightarrow>
      (\<forall>w. MarkPendingPushPending now w file proposalID message
             = (Some ErrProposalIDRequired, file) \<and>
           MarkPendingPushFailed now w file proposalID message
             = (Some ErrProposalIDRequired, file) \<and>
           MarkPendingPushCompleted now w file proposalID
             = (Some ErrProposalIDRequired, file))"
    unfolding MarkPendingPushPending_def MarkPendingPushFailed_def MarkPendingPushCompleted_def
    by (simp add: updatePendingPushStatus_blank)
  have found: "\<forall>pre e post.
      loadPendingPushesLocked file = Inr (pre @ e # post) \<and>
      strings_TrimSpace proposalID \<noteq> [] \<and>
      (\<forall>x\<in>set pre. ProposalID x \<noteq> strings_TrimSpace proposalID) \<and>
      ProposalID e = strings_TrimSpace proposalID \<longrightarrow>
        MarkPendingPushPending now True file proposalID message
          = (None, FileContent (map jsonRecord
               (pre @ marked PendingPushStatusPending message now e # post))) \<and>
        MarkPendingPushFailed now True file proposalID message
          = (None, FileContent (map jsonRecord
               (pre @ marked PendingPushStatusFailed message now e # post))) \<and>
        MarkPendingPushCompleted now True file proposalID
          = (None, FileContent (map jsonRecord
               (pre @ marked PendingPushStatusCompleted [] now e # post))) \<and>
        MarkPendingPushPending now False file proposalID message = (Some ErrPendingWrite, file) \<and>
        MarkPendingPushFailed now False file proposalID message = (Some ErrPendingWrite, file) \<and>
        MarkPendingPushCompleted now False file proposalID = (Some ErrPendingWrite, file)"
  proof (intro allI impI)
    fix pre e post
    assume a: "loadPendingPushesLocked file = Inr (pre @ e # post) \<and>
      strings_TrimSpace proposalID \<noteq> [] \<and>
      (\<forall>x\<in>set pre. ProposalID x \<noteq> strings_TrimSpace proposalID) \<and>
      ProposalID e = strings_TrimSpace proposalID"
    then have l: "loadPendingPushesLocked file = Inr (pre @ e # post)"
      and p: "strings_TrimSpace proposalID \<noteq> []"
      and q: "\<forall>x\<in>set pre. ProposalID x \<noteq> strings_TrimSpace proposalID"
      and r: "ProposalID e = strings_TrimSpace proposalID"
      by simp_all
    note u = updatePendingPushStatus_found [OF l p q r]
    show "MarkPendingPushPending now True file proposalID message
          = (None, FileContent (map jsonRecord
               (pre @ marked PendingPushStatusPending message now e # post))) \<and>
        MarkPendingPushFailed now True file proposalID message
          = (None, FileContent (map jsonRecord
               (pre @ marked PendingPushStatusFailed message now e # post))) \<and>
        MarkPendingPushCompleted now True file proposalID
          = (None, FileContent (map jsonRecord
               (pre @ marked PendingPushStatusCompleted [] now e # post))) \<and>
        MarkPendingPushPending now False file proposalID message = (Some ErrPendingWrite, file) \<and>
        MarkPendingPushFailed now False file proposalID message = (Some ErrPendingWrite, file) \<and>
        MarkPendingPushCompleted now False file proposalID = (Some ErrPendingWrite, file)"
      unfolding MarkPendingPushPending_def MarkPendingPushFailed_def MarkPendingPushCompleted_def u
      by simp
  qed
  have fields: "\<forall>st msg e.
      Status (marked st msg now e) = st \<and>
      UpdatedAt (marked st msg now e) = now \<and>
      LastTriedAt (marked st msg now e) = now \<and>
      Attempts (marked st msg now e) = Attempts e + 1 \<and>
      LastError (marked st msg now e)
        = (if st = PendingPushStatusCompleted then [] else strings_TrimSpace msg) \<and>
      CompletedAt (marked st msg now e)
        = (if st = PendingPushStatusCompleted then now else CompletedAt e) \<and>
      ProposalID (marked st msg now e) = ProposalID e \<and>
      Remote (marked st msg now e) = Remote e \<and>
      SourceRef (marked st msg now e) = SourceRef e \<and>
      TargetRef (marked st msg now e) = TargetRef e \<and>
      NewOID (marked st msg now e) = NewOID e \<and>
      GitArgs (marked st msg now e) = GitArgs e \<and>
      CreatedAt (marked st msg now e) = CreatedAt e"
    using marked_fields by blast
  have missing: "\<forall>pushes w.
      loadPendingPushesLocked file = Inr pushes \<longrightarrow>
        ((fst (MarkPendingPushPending now w file proposalID message)
            = Some (ErrPendingNotFound (strings_TrimSpace proposalID)))
          = (strings_TrimSpace proposalID \<noteq> [] \<and>
             (\<forall>x\<in>set pushes. ProposalID x \<noteq> strings_TrimSpace proposalID))) \<and>
        ((fst (MarkPendingPushFailed now w file proposalID message)
            = Some (ErrPendingNotFound (strings_TrimSpace proposalID)))
          = (strings_TrimSpace proposalID \<noteq> [] \<and>
             (\<forall>x\<in>set pushes. ProposalID x \<noteq> strings_TrimSpace proposalID))) \<and>
        ((fst (MarkPendingPushCompleted now w file proposalID)
            = Some (ErrPendingNotFound (strings_TrimSpace proposalID)))
          = (strings_TrimSpace proposalID \<noteq> [] \<and>
             (\<forall>x\<in>set pushes. ProposalID x \<noteq> strings_TrimSpace proposalID)))"
  proof (intro allI impI)
    fix pushes w
    assume l: "loadPendingPushesLocked file = Inr pushes"
    show "((fst (MarkPendingPushPending now w file proposalID message)
            = Some (ErrPendingNotFound (strings_TrimSpace proposalID)))
          = (strings_TrimSpace proposalID \<noteq> [] \<and>
             (\<forall>x\<in>set pushes. ProposalID x \<noteq> strings_TrimSpace proposalID))) \<and>
        ((fst (MarkPendingPushFailed now w file proposalID message)
            = Some (ErrPendingNotFound (strings_TrimSpace proposalID)))
          = (strings_TrimSpace proposalID \<noteq> [] \<and>
             (\<forall>x\<in>set pushes. ProposalID x \<noteq> strings_TrimSpace proposalID))) \<and>
        ((fst (MarkPendingPushCompleted now w file proposalID)
            = Some (ErrPendingNotFound (strings_TrimSpace proposalID)))
          = (strings_TrimSpace proposalID \<noteq> [] \<and>
             (\<forall>x\<in>set pushes. ProposalID x \<noteq> strings_TrimSpace proposalID)))"
      unfolding MarkPendingPushPending_def MarkPendingPushFailed_def MarkPendingPushCompleted_def
      by (intro conjI updatePendingPushStatus_not_found [OF l])
  qed
  from blank found fields missing show ?thesis by blast
qed

lemma toy_load: "loadPendingPushesLocked (FileContent [toyPush2, toyPush]) = Inr [toyPush, toyPush2]"
  by code_simp

theorem mark_status_semantics_witness:
  "MarkPendingPushFailed ''T9'' True (FileContent [toyPush2, toyPush]) '' p1 '' '' boom ''
     = (None, FileContent [toyPush\<lparr>Status := ''failed'', LastError := ''boom'', UpdatedAt := ''T9'',
                                   LastTriedAt := ''T9'', Attempts := 4\<rparr>, toyPush2]) \<and>
   MarkPendingPushCompleted ''T9'' True (FileContent [toyPush2, toyPush]) '' p1 ''
     = (None, FileContent [toyPush\<lparr>Status := ''completed'', LastError := [], UpdatedAt := ''T9'',
                                   LastTriedAt := ''T9'', Attempts := 4, CompletedAt := ''T9''\<rparr>,
                           toyPush2]) \<and>
   MarkPendingPushPending ''T9'' False (FileContent [toyPush2, toyPush]) '' p1 '' ''wait''
     = (Some ErrPendingWrite, FileContent [toyPush2, toyPush]) \<and>
   fst (MarkPendingPushPending ''T9'' False (FileContent [toyPush2, toyPush]) ''zz'' ''wait'')
     = Some (ErrPendingNotFound ''zz'') \<and>
   MarkPendingPushFailed ''T9'' True FileCorrupt ''  '' ''boom''
     = (Some ErrProposalIDRequired, FileCorrupt)"
proof -
  have p: "strings_TrimSpace '' p1 '' = ''p1''" by code_simp
  have z: "strings_TrimSpace ''zz'' = ''zz''" by code_simp
  have e: "strings_TrimSpace ''  '' = []" by code_simp
  have h: "loadPendingPushesLocked (FileContent [toyPush2, toyPush]) = Inr ([] @ toyPush # [toyPush2]) \<and>
           strings_TrimSpace '' p1 '' \<noteq> [] \<and>
           (\<forall>x\<in>set []. ProposalID x \<noteq> strings_TrimSpace '' p1 '') \<and>
           ProposalID toyPush = strings_TrimSpace '' p1 ''"
    unfolding p using toy_load by (simp add: toyPush_def)
  have n: "strings_TrimSpace ''zz'' \<noteq> [] \<and>
           (\<forall>x\<in>set [toyPush, toyPush2]. ProposalID x \<noteq> strings_TrimSpace ''zz'')"
    unfolding z by (simp add: toyPush_def toyPush2_def)
  have m1: "map jsonRecord ([] @ marked PendingPushStatusFailed '' boom '' ''T9'' toyPush # [toyPush2])
      = [toyPush\<lparr>Status := ''failed'', LastError := ''boom'', UpdatedAt := ''T9'',
                       LastTriedAt := ''T9'', Attempts := 4\<rparr>, toyPush2]"
    by code_simp
  have m2: "map jsonRecord ([] @ marked PendingPushStatusCompleted [] ''T9'' toyPush # [toyPush2])
      = [toyPush\<lparr>Status := ''completed'', LastError := [], UpdatedAt := ''T9'',
                       LastTriedAt := ''T9'', Attempts := 4, CompletedAt := ''T9''\<rparr>, toyPush2]"
    by code_simp
  note t1 = mark_status_semantics [of "'' p1 ''" "''T9''" "FileContent [toyPush2, toyPush]" "'' boom ''"]
  note t2 = mark_status_semantics [of "'' p1 ''" "''T9''" "FileContent [toyPush2, toyPush]" "''wait''"]
  note t3 = mark_status_semantics [of "''zz''" "''T9''" "FileContent [toyPush2, toyPush]" "''wait''"]
  note t4 = mark_status_semantics [of "''  ''" "''T9''" FileCorrupt "''boom''"]
  from t1 h
  have a: "MarkPendingPushFailed ''T9'' True (FileContent [toyPush2, toyPush]) '' p1 '' '' boom ''
      = (None, FileContent (map jsonRecord
           ([] @ marked PendingPushStatusFailed '' boom '' ''T9'' toyPush # [toyPush2])))"
    and b: "MarkPendingPushCompleted ''T9'' True (FileContent [toyPush2, toyPush]) '' p1 ''
      = (None, FileContent (map jsonRecord
           ([] @ marked PendingPushStatusCompleted [] ''T9'' toyPush # [toyPush2])))"
    by blast+
  from t2 h
  have w: "MarkPendingPushPending ''T9'' False (FileContent [toyPush2, toyPush]) '' p1 '' ''wait''
     = (Some ErrPendingWrite, FileContent [toyPush2, toyPush])"
    by blast
  from t3 toy_load n
  have c: "fst (MarkPendingPushPending ''T9'' False (FileContent [toyPush2, toyPush]) ''zz'' ''wait'')
     = Some (ErrPendingNotFound (strings_TrimSpace ''zz''))"
    by blast
  from t4 e
  have d: "MarkPendingPushFailed ''T9'' True FileCorrupt ''  '' ''boom''
     = (Some ErrProposalIDRequired, FileCorrupt)"
    by blast
  from a b w c d show ?thesis unfolding m1 m2 z by simp
qed

text \<open>
  Claim C7 as stated fails in two places: the message \<open>" boom "\<close> is stored as
  \<open>"boom"\<close>, not as given; and on an empty queue, where no record has the proposal id
  \<open>""\<close>, the error is "proposal ID is required", not the not-found error.
\<close>

theorem mark_status_counterexample:
  "snd (MarkPendingPushFailed ''T9'' True (FileContent [toyPush]) ''p1'' '' boom '')
     = FileContent [toyPush\<lparr>Status := ''failed'', LastError := ''boom'', UpdatedAt := ''T9'',
                            LastTriedAt := ''T9'', Attempts := 4\<rparr>] \<and>
   ''boom'' \<noteq> '' boom '' \<and>
   loadPendingPushesLocked FileMissing = Inr [] \<and>
   fst (MarkPendingPushCompleted ''T9'' True FileMissing []) = Some ErrProposalIDRequired"
proof -
  have a: "snd (MarkPendingPushFailed ''T9'' True (FileContent [toyPush]) ''p1'' '' boom '')
     = FileContent [toyPush\<lparr>Status := ''failed'', LastError := ''boom'', UpdatedAt := ''T9'',
                            LastTriedAt := ''T9'', Attempts := 4\<rparr>]"
    by code_simp
  have b: "loadPendingPushesLocked FileMissing = Inr []" by code_simp
  have c: "fst (MarkPendingPushCompleted ''T9'' True FileMissing []) = Some ErrProposalIDRequired"
    by code_simp
  from a b c show ?thesis by simp
qed


lemma upsertLoop_None:
  "(upsertLoop p ps = None) = (\<forall>x\<in>set ps. ProposalID x \<noteq> ProposalID p)"
  by (induction ps) (auto simp: Let_def split: option.splits)

lemma upsertLoop_Some:
  "(\<forall>x\<in>set pre. ProposalID x \<noteq> ProposalID p) \<Longrightarrow> ProposalID e = ProposalID p \<Longrightarrow>
   upsertLoop p (pre @ e # post) = Some (replacing e p, pre @ replacing e p # post)"
proof (induction pre)
  case Nil
  then show ?case by (simp add: Let_def replacing_def)
next
  case (Cons a pre)
  then show ?case by simp
qed

lemma normalizePendingPush_fields:
  assumes "normalizePendingPush nowC nowU push True = Inr p"
  shows "ProposalID p = strings_TrimSpace (ProposalID push) \<and>
    Remote p = strings_TrimSpace (Remote push) \<and>
    SourceRef p = strings_TrimSpace (SourceRef push) \<and>
    TargetRef p = strings_TrimSpace (TargetRef push) \<and>
    NewOID p = strings_TrimSpace (NewOID push) \<and>
    LastError p = strings_TrimSpace (LastError push) \<and>
    GitArgs p = (if GitArgs push = None then Some [] else GitArgs push) \<and>
    Status p = (if Status push = [] then PendingPushStatusPending else Status push) \<and>
    Attempts p = Attempts push \<and>
    LastTriedAt p = LastTriedAt push \<and>
    CompletedAt p = CompletedAt push \<and>
    CreatedAt p = (if CreatedAt push = [] then nowC else CreatedAt push) \<and>
    UpdatedAt p = nowU"
  using assms
  by (auto simp: normalizePendingPush_def Let_def split: if_splits)

lemma replacing_fields:
  "CreatedAt (replacing e p) = CreatedAt e \<and>
   sint (Attempts (replacing e p)) = max (sint (Attempts e)) (sint (Attempts p)) \<and>
   UpdatedAt (replacing e p) = UpdatedAt p"
  by (simp add: replacing_def max_def)

text \<open>
  Claim C6, as amended. Let \<open>p\<close> be the normalised push (fields trimmed, status
  defaulted to pending, \<open>updated_at\<close> set to the clock reading \<open>nowU\<close>) and let the queue
  load. The upsert is keyed by the trimmed proposal id, compared with the ids of the loaded
  queue. When \<open>e\<close> is the first record with the id of \<open>p\<close>, a successful upsert puts in
  its place \<open>p\<close> with the \<open>created_at\<close> of \<open>e\<close> and with \<open>attempts\<close> the maximum of
  both; every other field is that of \<open>p\<close>, and \<open>updated_at\<close> is \<open>nowU\<close>. When no
  record has the id, \<open>p\<close> is appended; its \<open>updated_at\<close> is \<open>nowU\<close> and its
  \<open>created_at\<close> is the one the caller gave or, when that is empty, the clock reading
  \<open>nowC\<close> taken just before \<open>nowU\<close>. The record is returned as it is; the file holds
  the resulting queue with each string as \<open>encoding/json\<close> gives it back
  (\<open>jsonRecord\<close>).
\<close>

theorem upsert_semantics:
  assumes "normalizePendingPush nowC nowU push True = Inr p"
    and "loadPendingPushesLocked file = Inr pushes"
  shows "(\<forall>pre e post.
      pushes = pre @ e # post \<and> (\<forall>x\<in>set pre. ProposalID x \<noteq> ProposalID p) \<and>
      ProposalID e = ProposalID p \<longrightarrow>
        UpsertPendingPush nowC nowU True file push
          = (Inr (replacing e p), FileContent (map jsonRecord (pre @ replacing e p # post))) \<and>
        CreatedAt (replacing e p) = CreatedAt e \<and>
        sint (Attempts (replacing e p)) = max (sint (Attempts e)) (sint (Attempts p)) \<and>
        UpdatedAt (replacing e p) = nowU) \<and>
    ((\<forall>x\<in>set pushes. ProposalID x \<noteq> ProposalID p) \<longrightarrow>
        UpsertPendingPush nowC nowU True file push = (Inr p, FileContent (map jsonRecord (pushes @ [p])))) \<and>
    ProposalID p = strings_TrimSpace (ProposalID push) \<and>
    Remote p = strings_TrimSpace (Remote push) \<and>
    SourceRef p = strings_TrimSpace (SourceRef push) \<and>
    TargetRef p = strings_TrimSpace (TargetRef push) \<and>
    NewOID p = strings_TrimSpace (NewOID push) \<and>
    LastError p = strings_TrimSpace (LastError push) \<and>
    GitArgs p = (if GitArgs push = None then Some [] else GitArgs push) \<and>
    Status p = (if Status push = [] then PendingPushStatusPending else Status push) \<and>
    Attempts p = Attempts push \<and>
    LastTriedAt p = LastTriedAt push \<and>
    CompletedAt p = CompletedAt push \<and>
    CreatedAt p = (if CreatedAt push = [] then nowC else CreatedAt push) \<and>
    UpdatedAt p = nowU"
proof -
  note f = normalizePendingPush_fields [OF assms(1)]
  have r: "\<And>pre e post. pushes = pre @ e # post \<and> (\<forall>x\<in>set pre. ProposalID x \<noteq> ProposalID p) \<and>
      ProposalID e = ProposalID p \<Longrightarrow>
        UpsertPendingPush nowC nowU True file push
          = (Inr (replacing e p), FileContent (map jsonRecord (pre @ replacing e p # post))) \<and>
        CreatedAt (replacing e p) = CreatedAt e \<and>
        sint (Attempts (replacing e p)) = max (sint (Attempts e)) (sint (Attempts p)) \<and>
        UpdatedAt (replacing e p) = nowU"
  proof -
    fix pre e post
    assume a: "pushes = pre @ e # post \<and> (\<forall>x\<in>set pre. ProposalID x \<noteq> ProposalID p) \<and>
      ProposalID e = ProposalID p"
    then have "upsertLoop p pushes = Some (replacing e p, pre @ replacing e p # post)"
      using upsertLoop_Some [of pre p e post] by simp
    then have "UpsertPendingPush nowC nowU True file push
          = (Inr (replacing e p), FileContent (map jsonRecord (pre @ replacing e p # post)))"
      using assms by (simp add: UpsertPendingPush_def savePendingPushesLocked_def)
    then show "UpsertPendingPush nowC nowU True file push
          = (Inr (replacing e p), FileContent (map jsonRecord (pre @ replacing e p # post))) \<and>
        CreatedAt (replacing e p) = CreatedAt e \<and>
        sint (Attempts (replacing e p)) = max (sint (Attempts e)) (sint (Attempts p)) \<and>
        UpdatedAt (replacing e p) = nowU"
      using replacing_fields [of e p] f by simp
  qed
  have i: "(\<forall>x\<in>set pushes. ProposalID x \<noteq> ProposalID p) \<Longrightarrow>
        UpsertPendingPush nowC nowU True file push = (Inr p, FileContent (map jsonRecord (pushes @ [p])))"
  proof -
    assume "\<forall>x\<in>set pushes. ProposalID x \<noteq> ProposalID p"
    then have "upsertLoop p pushes = None" by (simp add: upsertLoop_None)
    then show ?thesis
      using assms by (simp add: UpsertPendingPush_def savePendingPushesLocked_def)
  qed
  from r i f show ?thesis by blast
qed

theorem upsert_semantics_witness:
  "UpsertPendingPush ''T5'' ''T6'' True (FileContent [toyPush2, toyPush])
      (toyPush\<lparr>Attempts := 1, Remote := '' up '', CreatedAt := []\<rparr>)
     = (Inr (toyPush\<lparr>Remote := ''up'', UpdatedAt := ''T6''\<rparr>),
        FileContent [toyPush\<lparr>Remote := ''up'', UpdatedAt := ''T6''\<rparr>, toyPush2]) \<and>
   UpsertPendingPush ''T5'' ''T6'' True (FileContent [toyPush2])
      (toyPush\<lparr>Attempts := 1, Remote := '' up '', CreatedAt := []\<rparr>)
     = (Inr (toyPush\<lparr>Attempts := 1, Remote := ''up'', CreatedAt := ''T5'', UpdatedAt := ''T6''\<rparr>),
        FileContent [toyPush2,
          toyPush\<lparr>Attempts := 1, Remote := ''up'', CreatedAt := ''T5'', UpdatedAt := ''T6''\<rparr>])"
proof -
  define p where "p = toyPush\<lparr>Attempts := 1, Remote := ''up'', CreatedAt := ''T5'', UpdatedAt := ''T6''\<rparr>"
  have n: "normalizePendingPush ''T5'' ''T6''
             (toyPush\<lparr>Attempts := 1, Remote := '' up '', CreatedAt := []\<rparr>) True = Inr p"
    unfolding p_def by code_simp
  have l2: "loadPendingPushesLocked (FileContent [toyPush2]) = Inr [toyPush2]" by code_simp
  have h: "[toyPush, toyPush2] = [] @ toyPush # [toyPush2] \<and>
           (\<forall>x\<in>set []. ProposalID x \<noteq> ProposalID p) \<and> ProposalID toyPush = ProposalID p"
    by (simp add: p_def toyPush_def)
  have g: "\<forall>x\<in>set [toyPush2]. ProposalID x \<noteq> ProposalID p"
    by (simp add: p_def toyPush_def toyPush2_def)
  have r: "replacing toyPush p = toyPush\<lparr>Remote := ''up'', UpdatedAt := ''T6''\<rparr>"
    unfolding p_def by code_simp
  from upsert_semantics [OF n toy_load] h
  have a: "UpsertPendingPush ''T5'' ''T6'' True (FileContent [toyPush2, toyPush])
      (toyPush\<lparr>Attempts := 1, Remote := '' up '', CreatedAt := []\<rparr>)
     = (Inr (replacing toyPush p), FileContent (map jsonRecord ([] @ replacing toyPush p # [toyPush2])))"
    by blast
  from upsert_semantics [OF n l2] g
  have b: "UpsertPendingPush ''T5'' ''T6'' True (FileContent [toyPush2])
      (toyPush\<lparr>Attempts := 1, Remote := '' up '', CreatedAt := []\<rparr>)
     = (Inr p, FileContent (map jsonRecord ([toyPush2] @ [p])))"
    by blast
  have j1: "map jsonRecord ([] @ toyPush\<lparr>Remote := ''up'', UpdatedAt := ''T6''\<rparr> # [toyPush2])
      = [toyPush\<lparr>Remote := ''up'', UpdatedAt := ''T6''\<rparr>, toyPush2]"
    by code_simp
  have j2: "map jsonRecord ([toyPush2] @ [p]) = [toyPush2, p]"
    unfolding p_def by code_simp
  from a b show ?thesis unfolding r j1 j2 by (simp add: p_def)
qed

text \<open>
  Claim C6 as stated fails on a first insert: a push that carries the creation time
  \<open>T0\<close> is stored with \<open>created_at = T0\<close> while \<open>updated_at\<close> is the clock reading
  \<open>T6\<close>; and with no creation time given, \<open>created_at\<close> and \<open>updated_at\<close> come from
  two readings of the clock (\<open>T5\<close>, \<open>T6\<close>), which need not be equal.
\<close>

theorem upsert_created_at_counterexample:
  "loadPendingPushesLocked FileMissing = Inr [] \<and>
   fst (UpsertPendingPush ''T6'' ''T6'' True FileMissing toyPush)
     = Inr (toyPush\<lparr>UpdatedAt := ''T6''\<rparr>) \<and>
   CreatedAt (toyPush\<lparr>UpdatedAt := ''T6''\<rparr>) = ''T0'' \<and>
   UpdatedAt (toyPush\<lparr>UpdatedAt := ''T6''\<rparr>) = ''T6'' \<and>
   fst (UpsertPendingPush ''T5'' ''T6'' True FileMissing (toyPush\<lparr>CreatedAt := []\<rparr>))
     = Inr (toyPush\<lparr>CreatedAt := ''T5'', UpdatedAt := ''T6''\<rparr>)"
proof -
  have a: "loadPendingPushesLocked FileMissing = Inr []" by code_simp
  have b: "fst (UpsertPendingPush ''T6'' ''T6'' True FileMissing toyPush)
     = Inr (toyPush\<lparr>UpdatedAt := ''T6''\<rparr>)" by code_simp
  have c: "fst (UpsertPendingPush ''T5'' ''T6'' True FileMissing (toyPush\<lparr>CreatedAt := []\<rparr>))
     = Inr (toyPush\<lparr>CreatedAt := ''T5'', UpdatedAt := ''T6''\<rparr>)" by code_simp
  from a b c show ?thesis by (simp add: toyPush_def)
qed



text \<open>
  The key is compared after the round trip through the file: a proposal id holding a byte
  that is not valid UTF-8 is stored with U+FFFD in its place, so a second upsert of the same
  push finds no record with its id and appends another one.
\<close>

lemma upsert_invalid_utf8_appends:
  "snd (UpsertPendingPush ''T5'' ''T6'' True FileMissing (toyPush\<lparr>ProposalID := [CHR ''p'', CHR 0xFF]\<rparr>))
     = FileContent [toyPush\<lparr>ProposalID := [CHR ''p'', CHR 0xEF, CHR 0xBF, CHR 0xBD],
                            UpdatedAt := ''T6''\<rparr>] \<and>
   snd (UpsertPendingPush ''T7'' ''T8'' True
          (FileContent [toyPush\<lparr>ProposalID := [CHR ''p'', CHR 0xEF, CHR 0xBF, CHR 0xBD],
                                UpdatedAt := ''T6''\<rparr>])
          (toyPush\<lparr>ProposalID := [CHR ''p'', CHR 0xFF]\<rparr>))
     = FileContent [toyPush\<lparr>ProposalID := [CHR ''p'', CHR 0xEF, CHR 0xBF, CHR 0xBD],
                            UpdatedAt := ''T6''\<rparr>,
                    toyPush\<lparr>ProposalID := [CHR ''p'', CHR 0xEF, CHR 0xBF, CHR 0xBD],
                            UpdatedAt := ''T8''\<rparr>]"
proof -
  have a: "snd (UpsertPendingPush ''T5'' ''T6'' True FileMissing (toyPush\<lparr>ProposalID := [CHR ''p'', CHR 0xFF]\<rparr>))
     = FileContent [toyPush\<lparr>ProposalID := [CHR ''p'', CHR 0xEF, CHR 0xBF, CHR 0xBD],
                            UpdatedAt := ''T6''\<rparr>]"
    by code_simp
  have b: "snd (UpsertPendingPush ''T7'' ''T8'' True
          (FileContent [toyPush\<lparr>ProposalID := [CHR ''p'', CHR 0xEF, CHR 0xBF, CHR 0xBD],
                                UpdatedAt := ''T6''\<rparr>])
          (toyPush\<lparr>ProposalID := [CHR ''p'', CHR 0xFF]\<rparr>))
     = FileContent [toyPush\<lparr>ProposalID := [CHR ''p'', CHR 0xEF, CHR 0xBF, CHR 0xBD],
                            UpdatedAt := ''T6''\<rparr>,
                    toyPush\<lparr>ProposalID := [CHR ''p'', CHR 0xEF, CHR 0xBF, CHR 0xBD],
                            UpdatedAt := ''T8''\<rparr>]"
    by code_simp
  from a b show ?thesis by simp
qed
section \<open>Properties of processPendingPushes\<close>































end
